theory Spec2Isabelle
  imports Complex_Main
begin

section \<open>Arrays and errors\<close>

text \<open>
  The program is \<^verbatim>\<open>BPR/MLP.py\<close>: a command-line script (\<^verbatim>\<open>cli_main\<close>) that loads a
  CSV file, selects feature and target columns, splits the records into five folds and,
  per fold, scales the features, wraps them as datasets and loaders, trains a small
  network with early stopping and collects three test metrics; at the end it writes a
  table of the fold metrics with their mean and standard deviation.

  Numbers are modelled as \<^typ>\<open>real\<close>: NumPy's float64 and torch's float32 are read as the
  reals they stand for, and a cast between them is the identity. Every exception the
  script can raise in the modelled parts is a value of \<open>py_error\<close>.
\<close>

datatype py_error =
  ValueError | IndexError | UnboundLocalError | RuntimeError | NotFittedError
  | ZeroDivisionError | FileNotFoundError

text \<open>Sequencing of steps that may raise: the first error ends the computation.\<close>

definition bnd :: "py_error + 'a \<Rightarrow> ('a \<Rightarrow> py_error + 'b) \<Rightarrow> py_error + 'b" where
  "bnd m f = (case m of Inl e \<Rightarrow> Inl e | Inr v \<Rightarrow> f v)"

fun collect :: "(py_error + 'a) list \<Rightarrow> py_error + 'a list" where
  "collect [] = Inr []"
| "collect (m # ms) = bnd m (\<lambda>v. bnd (collect ms) (\<lambda>vs. Inr (v # vs)))"

text \<open>
  A division of floats. NumPy gives \<open>inf\<close> or \<open>nan\<close> with a warning on a zero divisor and
  Python raises; the reals have neither value, so the model makes a zero divisor an
  outcome of its own, and its absence is something to prove.
\<close>

definition divide_checked :: "real \<Rightarrow> real \<Rightarrow> py_error + real" where
  "divide_checked a b = (if b = 0 then Inl ZeroDivisionError else Inr (a / b))"

text \<open>
  A two-dimensional NumPy array: the number of columns is part of the shape, also when
  there is no row.
\<close>

record ndarray =
  ncols :: nat
  rows :: "real list list"

definition nrows :: "ndarray \<Rightarrow> nat" where
  "nrows a = length (rows a)"

definition wf_ndarray :: "ndarray \<Rightarrow> bool" where
  "wf_ndarray a = list_all (\<lambda>r. length r = ncols a) (rows a)"

text \<open>\<^verbatim>\<open>a[:, lo:hi]\<close> with \<open>0 \<le> lo \<le> hi\<close>: a slice is clipped to the shape, it never raises.\<close>

definition slice_cols :: "nat \<Rightarrow> nat \<Rightarrow> ndarray \<Rightarrow> ndarray" where
  "slice_cols lo hi a =
     \<lparr>ncols = min hi (ncols a) - min lo (ncols a),
      rows = map (\<lambda>r. drop lo (take hi r)) (rows a)\<rparr>"

text \<open>\<^verbatim>\<open>a[:, k]\<close>: an integer index counts from the end when negative and raises out of range.\<close>

definition index_col :: "int \<Rightarrow> ndarray \<Rightarrow> py_error + real list" where
  "index_col k a =
     (let n = int (ncols a); j = (if k < 0 then n + k else k)
      in if 0 \<le> j \<and> j < n then Inr (map (\<lambda>r. r ! nat j) (rows a)) else Inl IndexError)"

text \<open>\<^verbatim>\<open>v.reshape((-1, 1))\<close>: a vector as a one-column array.\<close>

definition reshape_col :: "real list \<Rightarrow> ndarray" where
  "reshape_col v = \<lparr>ncols = 1, rows = map (\<lambda>y. [y]) v\<rparr>"

text \<open>\<^verbatim>\<open>a[idx]\<close> with an index array: the rows at these positions, in this order.\<close>

definition take_rows :: "ndarray \<Rightarrow> nat list \<Rightarrow> py_error + ndarray" where
  "take_rows a idx =
     (if list_all (\<lambda>i. i < nrows a) idx
      then Inr \<lparr>ncols = ncols a, rows = map (\<lambda>i. rows a ! i) idx\<rparr>
      else Inl IndexError)"

section \<open>Reading the file (\<^verbatim>\<open>cli_main\<close>, line 128)\<close>



section \<open>Column selection (\<^verbatim>\<open>cli_main\<close>, lines 129 to 146)\<close>

text \<open>
  The chain of string comparisons that binds \<^verbatim>\<open>X\<close> and \<^verbatim>\<open>Y1\<close>. The chain has no final
  \<^verbatim>\<open>else\<close>: for any other dataset name both variables stay unbound (\<open>None\<close>), and the
  script goes on. Inside each dataset branch the task is tested against
  \<^verbatim>\<open>"Latency"\<close> only, with an \<^verbatim>\<open>else\<close> for every other string.
\<close>

definition target_col :: "int \<Rightarrow> ndarray \<Rightarrow> ndarray \<Rightarrow> py_error + (ndarray \<times> ndarray) option" where
  "target_col k raw_data X =
     (case index_col k raw_data of
        Inl e \<Rightarrow> Inl e
      | Inr y \<Rightarrow> Inr (Some (X, reshape_col y)))"

definition select_columns ::
  "string \<Rightarrow> string \<Rightarrow> ndarray \<Rightarrow> py_error + (ndarray \<times> ndarray) option" where
  "select_columns dataset task raw_data =
     (if dataset = ''BPD-1'' then
        (let X = slice_cols 0 2 raw_data
         in if task = ''Latency'' then target_col 2 raw_data X
            else target_col 3 raw_data X)
      else if dataset = ''HFBTP'' then
        (let X = slice_cols 0 3 raw_data
         in if task = ''Latency'' then target_col 4 raw_data X
            else target_col 3 raw_data X)
      else if dataset = ''MMBPD'' then
        (let X = slice_cols 1 3 raw_data
         in if task = ''Latency'' then target_col 4 raw_data X
            else target_col (- 2) raw_data X)
      else Inr None)"

section \<open>The five folds (\<^verbatim>\<open>cli_main\<close>, lines 148 and 151)\<close>

text \<open>
  \<^verbatim>\<open>KFold(n_splits=5, random_state=seed, shuffle=True)\<close> and \<^verbatim>\<open>KF.split(X)\<close> are
  scikit-learn's. The model follows the library's algorithm: the indices
  \<open>0, \<dots>, n - 1\<close> are shuffled by a generator seeded with \<open>random_state\<close>, cut into
  \<open>n_splits\<close> consecutive runs whose sizes differ by at most one (the first
  \<open>n mod n_splits\<close> runs are the longer ones), and each run gives one fold: its members are
  the test indices, the others the train indices, both in increasing order. The split
  raises \<open>ValueError\<close> when there are fewer samples than folds. The generator is a
  parameter \<open>rng\<close>: \<open>rng s n\<close> is the order in which a generator seeded with \<open>s\<close> leaves
  \<open>0, \<dots>, n - 1\<close>.
\<close>

definition seed :: nat where
  "seed = 42"

record kfold =
  n_splits :: nat
  random_state :: nat
  kf_shuffle :: bool

definition KFold :: "nat \<Rightarrow> nat \<Rightarrow> bool \<Rightarrow> kfold" where
  "KFold k s sh = \<lparr>n_splits = k, random_state = s, kf_shuffle = sh\<rparr>"

definition fold_sizes :: "nat \<Rightarrow> nat \<Rightarrow> nat list" where
  "fold_sizes k n = map (\<lambda>i. n div k + (if i < n mod k then 1 else 0)) [0..<k]"

fun slices :: "'a list \<Rightarrow> nat list \<Rightarrow> 'a list list" where
  "slices xs [] = []"
| "slices xs (s # ss) = take s xs # slices (drop s xs) ss"

definition iter_test_indices :: "kfold \<Rightarrow> (nat \<Rightarrow> nat \<Rightarrow> nat list) \<Rightarrow> nat \<Rightarrow> nat list list" where
  "iter_test_indices kf rng n =
     (let indices = (if kf_shuffle kf then rng (random_state kf) n else [0..<n])
      in slices indices (fold_sizes (n_splits kf) n))"

definition fold_of :: "nat \<Rightarrow> nat list \<Rightarrow> nat list \<times> nat list" where
  "fold_of n test =
     (filter (\<lambda>i. i \<notin> set test) [0..<n], filter (\<lambda>i. i \<in> set test) [0..<n])"

definition KFold_split ::
  "kfold \<Rightarrow> (nat \<Rightarrow> nat \<Rightarrow> nat list) \<Rightarrow> nat \<Rightarrow> py_error + (nat list \<times> nat list) list" where
  "KFold_split kf rng n =
     (if n_splits kf > n then Inl ValueError
      else Inr (map (fold_of n) (iter_test_indices kf rng n)))"

text \<open>
  Lines 147 to 151: the first use of \<^verbatim>\<open>X\<close> is the argument of \<^verbatim>\<open>KF.split\<close>; when no
  branch of the selection bound it, Python raises \<open>UnboundLocalError\<close> there.
\<close>

definition split_folds ::
  "(nat \<Rightarrow> nat \<Rightarrow> nat list) \<Rightarrow> (ndarray \<times> ndarray) option \<Rightarrow>
   py_error + (nat list \<times> nat list) list" where
  "split_folds rng sel =
     (case sel of
        None \<Rightarrow> Inl UnboundLocalError
      | Some (X, Y1) \<Rightarrow> KFold_split (KFold 5 seed True) rng (nrows X))"


section \<open>Feature scaling (\<^verbatim>\<open>cli_main\<close>, lines 155 to 159)\<close>

text \<open>
  \<^verbatim>\<open>preprocessing.MinMaxScaler()\<close> is scikit-learn's, with its default feature range
  \<open>(0, 1)\<close>. The model follows the library: \<^verbatim>\<open>fit\<close> takes the minimum and maximum of
  every column, replaces a range below ten machine epsilons by \<open>1\<close>
  (\<^verbatim>\<open>_handle_zeros_in_scale\<close>), and stores \<open>scale = 1 / range\<close> and
  \<open>min_shift = 0 - data_min * scale\<close> (the attributes \<^verbatim>\<open>scale_\<close> and \<^verbatim>\<open>min_\<close>);
  \<^verbatim>\<open>transform\<close> computes \<open>X * scale + min_shift\<close> row
  by row and leaves the fitted state as it is; \<^verbatim>\<open>fit_transform\<close> is \<^verbatim>\<open>fit\<close> followed
  by \<^verbatim>\<open>transform\<close> on the same array. An array without rows or columns is refused with
  \<open>ValueError\<close>, a column count other than the fitted one as well, and an unfitted scaler
  raises \<open>NotFittedError\<close>.
\<close>

definition float_eps :: real where
  "float_eps = 1 / 2 ^ 52"

record minmax_state =
  data_min :: "real list"
  data_max :: "real list"
  data_range :: "real list"
  scale :: "real list"
  min_shift :: "real list"

type_synonym scaler = "minmax_state option"

definition MinMaxScaler :: scaler where
  "MinMaxScaler = None"

definition column :: "ndarray \<Rightarrow> nat \<Rightarrow> real list" where
  "column a j = map (\<lambda>r. r ! j) (rows a)"

definition np_min :: "real list \<Rightarrow> real" where
  "np_min v = fold min (tl v) (hd v)"

definition np_max :: "real list \<Rightarrow> real" where
  "np_max v = fold max (tl v) (hd v)"

definition handle_zero :: "real \<Rightarrow> real" where
  "handle_zero s = (if s < 10 * float_eps then 1 else s)"

definition handle_zeros_in_scale :: "real list \<Rightarrow> real list" where
  "handle_zeros_in_scale sc = map handle_zero sc"

definition fit :: "ndarray \<Rightarrow> py_error + minmax_state" where
  "fit X =
     (if nrows X = 0 \<or> ncols X = 0 then Inl ValueError
      else
        (let cols = map (column X) [0..<ncols X];
             dmin = map np_min cols;
             dmax = map np_max cols;
             drange = map2 (-) dmax dmin
         in bnd (collect (map (divide_checked 1) (handle_zeros_in_scale drange)))
              (\<lambda>sc. Inr \<lparr>data_min = dmin, data_max = dmax, data_range = drange,
                          scale = sc, min_shift = map2 (\<lambda>m s. 0 - m * s) dmin sc\<rparr>)))"

definition scale_row :: "minmax_state \<Rightarrow> real list \<Rightarrow> real list" where
  "scale_row st r = map2 (+) (map2 (*) r (scale st)) (min_shift st)"

definition transform :: "scaler \<Rightarrow> ndarray \<Rightarrow> py_error + ndarray" where
  "transform sc X =
     (case sc of
        None \<Rightarrow> Inl NotFittedError
      | Some st \<Rightarrow>
          if nrows X = 0 \<or> ncols X = 0 \<or> ncols X \<noteq> length (scale st) then Inl ValueError
          else Inr \<lparr>ncols = ncols X, rows = map (scale_row st) (rows X)\<rparr>)"

text \<open>\<^verbatim>\<open>fit_transform\<close> discards whatever the scaler had fitted before.\<close>

definition fit_transform :: "scaler \<Rightarrow> ndarray \<Rightarrow> py_error + (ndarray \<times> scaler)" where
  "fit_transform sc X =
     bnd (fit X) (\<lambda>st. bnd (transform (Some st) X) (\<lambda>Z. Inr (Z, Some st)))"

section \<open>Datasets and loaders (lines 22 to 32 and 161 to 168)\<close>

record blockchain_dataset =
  len :: nat
  x_data :: ndarray
  y_data :: ndarray

definition BlockChainDataset :: "ndarray \<Rightarrow> ndarray \<Rightarrow> blockchain_dataset" where
  "BlockChainDataset data label = \<lparr>len = nrows data, x_data = data, y_data = label\<rparr>"

text \<open>
  \<^verbatim>\<open>DataLoader\<close> is torch's. Its \<^verbatim>\<open>shuffle\<close> argument is optional and an omitted one
  means no shuffling; a batch size that is not positive raises \<open>ValueError\<close>. Without
  shuffling the sampler yields \<open>0, \<dots>, len - 1\<close> in order, with shuffling the
  permutation \<open>perm\<close> drawn for the epoch; the batches are consecutive runs of
  \<open>batch_size\<close> indices, the last one shorter when the length is no multiple.
\<close>

record dataloader =
  dl_dataset :: blockchain_dataset
  batch_size :: nat
  dl_shuffle :: bool

definition DataLoader :: "blockchain_dataset \<Rightarrow> int \<Rightarrow> bool option \<Rightarrow> py_error + dataloader" where
  "DataLoader ds bs sh =
     (if bs \<le> 0 then Inl ValueError
      else Inr \<lparr>dl_dataset = ds, batch_size = nat bs,
                dl_shuffle = (case sh of None \<Rightarrow> False | Some b \<Rightarrow> b)\<rparr>)"

function chunks :: "nat \<Rightarrow> 'a list \<Rightarrow> 'a list list" where
  "chunks n xs = (if n = 0 \<or> xs = [] then [] else take n xs # chunks n (drop n xs))"
  by pat_completeness auto
termination
  by (relation "measure (\<lambda>(n, xs). length xs)") auto

definition sampler :: "dataloader \<Rightarrow> nat list \<Rightarrow> nat list" where
  "sampler dl perm = (if dl_shuffle dl then perm else [0..<len (dl_dataset dl)])"

definition batch_indices :: "dataloader \<Rightarrow> nat list \<Rightarrow> nat list list" where
  "batch_indices dl perm = chunks (batch_size dl) (sampler dl perm)"

text \<open>The body of the loop over the folds, up to the loaders (lines 152 to 168).\<close>

record fold_data =
  min_max_scaler1 :: scaler
  train_dataset :: blockchain_dataset
  val_dataset :: blockchain_dataset
  test_dataset :: blockchain_dataset
  train_loader :: dataloader
  val_loader :: dataloader
  test_loader :: dataloader

definition prepare_fold ::
  "int \<Rightarrow> ndarray \<Rightarrow> ndarray \<Rightarrow> nat list \<times> nat list \<Rightarrow> py_error + fold_data" where
  "prepare_fold args_batch_size X Y1 split =
     (case split of (train_index, test_index) \<Rightarrow>
        bnd (take_rows X train_index) (\<lambda>Xtrain1.
        bnd (take_rows X test_index) (\<lambda>Xtest1.
        bnd (take_rows Y1 train_index) (\<lambda>Ytrain1.
        bnd (take_rows Y1 test_index) (\<lambda>Ytest1.
        bnd (fit_transform MinMaxScaler Xtrain1) (\<lambda>(Xtrain1_minmax, sc).
        bnd (transform sc Xtest1) (\<lambda>Xtest1_minmax.
          (let train_ds = BlockChainDataset Xtrain1_minmax Ytrain1;
               val_ds = BlockChainDataset Xtest1_minmax Ytest1;
               test_ds = BlockChainDataset Xtest1_minmax Ytest1
           in
        bnd (DataLoader train_ds args_batch_size None) (\<lambda>train_ld.
        bnd (DataLoader val_ds (int (nrows Ytest1)) (Some False)) (\<lambda>val_ld.
        bnd (DataLoader test_ds (int (nrows Xtest1)) (Some False)) (\<lambda>test_ld.
          Inr \<lparr>min_max_scaler1 = sc,
               train_dataset = train_ds, val_dataset = val_ds, test_dataset = test_ds,
               train_loader = train_ld, val_loader = val_ld, test_loader = test_ld\<rparr>)))))))))))"

section \<open>The network (\<^verbatim>\<open>Backbone\<close>, lines 35 to 56)\<close>

text \<open>
  \<^verbatim>\<open>nn.Linear(i, k)\<close> holds a \<open>k \<times> i\<close> weight matrix and a bias of length \<open>k\<close>, both
  initialised at random: \<open>init i k\<close> stands for the values drawn. Applied to a batch whose
  rows do not have \<open>i\<close> entries it raises \<open>RuntimeError\<close> (the shapes cannot be
  multiplied). \<^verbatim>\<open>nn.Dropout\<close> is the identity in evaluation mode (\<open>None\<close>) and in
  training mode multiplies by a random keep-mask and by \<open>1 / (1 - p)\<close>.
\<close>

record linear =
  in_features :: nat
  out_features :: nat
  weight :: "real list list"
  bias :: "real list"

definition Linear :: "(nat \<Rightarrow> nat \<Rightarrow> real list list \<times> real list) \<Rightarrow> nat \<Rightarrow> nat \<Rightarrow> linear" where
  "Linear init i k =
     \<lparr>in_features = i, out_features = k, weight = fst (init i k), bias = snd (init i k)\<rparr>"

definition linear_forward :: "linear \<Rightarrow> ndarray \<Rightarrow> py_error + ndarray" where
  "linear_forward l x =
     (if ncols x \<noteq> in_features l then Inl RuntimeError
      else Inr \<lparr>ncols = out_features l,
                rows = map (\<lambda>r. map2 (\<lambda>w b. sum_list (map2 (*) w r) + b) (weight l) (bias l))
                         (rows x)\<rparr>)"

definition relu :: "ndarray \<Rightarrow> ndarray" where
  "relu x = \<lparr>ncols = ncols x, rows = map (map (max 0)) (rows x)\<rparr>"

definition dropout :: "real \<Rightarrow> real list list option \<Rightarrow> ndarray \<Rightarrow> ndarray" where
  "dropout p keep x =
     (case keep of
        None \<Rightarrow> x
      | Some m \<Rightarrow> \<lparr>ncols = ncols x,
                   rows = map2 (\<lambda>r mr. map2 (\<lambda>v k. v * k / (1 - p)) r mr) (rows x) m\<rparr>)"

record backbone =
  fc1 :: linear
  fc2 :: linear
  fc3 :: linear
  fc4 :: linear

definition Backbone :: "(nat \<Rightarrow> nat \<Rightarrow> real list list \<times> real list) \<Rightarrow> backbone" where
  "Backbone init =
     \<lparr>fc1 = Linear init 2 128, fc2 = Linear init 128 64,
      fc3 = Linear init 64 8, fc4 = Linear init 8 1\<rparr>"

text \<open>\<open>masks k\<close> is the keep-mask of the \<open>k\<close>-th dropout, \<open>None\<close> in evaluation mode.\<close>

definition forward ::
  "backbone \<Rightarrow> (nat \<Rightarrow> real list list option) \<Rightarrow> ndarray \<Rightarrow> py_error + ndarray" where
  "forward bb masks x =
     bnd (linear_forward (fc1 bb) x) (\<lambda>out1.
     bnd (linear_forward (fc2 bb) (relu (dropout (1 / 10) (masks 0) out1))) (\<lambda>out2.
     bnd (linear_forward (fc3 bb) (relu (dropout (1 / 10) (masks 1) out2))) (\<lambda>out3.
     linear_forward (fc4 bb) (relu (dropout (1 / 10) (masks 2) out3)))))"

definition eval_mode :: "nat \<Rightarrow> real list list option" where
  "eval_mode k = None"

section \<open>Evaluation (\<^verbatim>\<open>LitClassifier.evaluate\<close>, lines 83 to 96)\<close>

text \<open>
  The three metrics are scikit-learn's. Each first checks its two arguments
  (\<^verbatim>\<open>_check_reg_targets\<close>): the row counts must agree, there must be a row and a column,
  and the column counts must agree, else \<open>ValueError\<close>. Each then averages an error over
  the rows of every column and averages the columns. For the percentage error the
  library divides the absolute error by \<open>max |y_true| eps\<close>, \<open>eps\<close> the float64 machine
  epsilon. \<^verbatim>\<open>nn.MSELoss\<close> is torch's: the mean squared difference after broadcasting,
  \<open>RuntimeError\<close> when the shapes do not broadcast.
\<close>

definition average :: "real list \<Rightarrow> py_error + real" where
  "average v = divide_checked (sum_list v) (real (length v))"

definition check_reg_targets :: "ndarray \<Rightarrow> ndarray \<Rightarrow> py_error + unit" where
  "check_reg_targets y_true y_pred =
     (if nrows y_true \<noteq> nrows y_pred \<or> nrows y_true = 0 \<or> ncols y_true = 0
         \<or> ncols y_pred = 0 \<or> ncols y_true \<noteq> ncols y_pred
      then Inl ValueError else Inr ())"

definition column_errors ::
  "(real \<Rightarrow> real \<Rightarrow> py_error + real) \<Rightarrow> ndarray \<Rightarrow> ndarray \<Rightarrow> py_error + real" where
  "column_errors err y_true y_pred =
     bnd (check_reg_targets y_true y_pred) (\<lambda>u.
     bnd (collect (map (\<lambda>j.
            bnd (collect (map2 err (column y_true j) (column y_pred j))) average)
          [0..<ncols y_true])) average)"

definition mean_absolute_error :: "ndarray \<Rightarrow> ndarray \<Rightarrow> py_error + real" where
  "mean_absolute_error y_true y_pred =
     column_errors (\<lambda>t p. Inr \<bar>p - t\<bar>) y_true y_pred"

definition mean_squared_error :: "ndarray \<Rightarrow> ndarray \<Rightarrow> py_error + real" where
  "mean_squared_error y_true y_pred =
     column_errors (\<lambda>t p. Inr ((t - p) ^ 2)) y_true y_pred"

definition mean_absolute_percentage_error :: "ndarray \<Rightarrow> ndarray \<Rightarrow> py_error + real" where
  "mean_absolute_percentage_error y_true y_pred =
     column_errors (\<lambda>t p. divide_checked \<bar>p - t\<bar> (max \<bar>t\<bar> float_eps)) y_true y_pred"

definition broadcast_at :: "ndarray \<Rightarrow> nat \<Rightarrow> nat \<Rightarrow> real" where
  "broadcast_at a i j =
     rows a ! (if nrows a = 1 then 0 else i) ! (if ncols a = 1 then 0 else j)"

definition MSELoss :: "ndarray \<Rightarrow> ndarray \<Rightarrow> py_error + real" where
  "MSELoss input target =
     (if (nrows input = nrows target \<or> nrows input = 1 \<or> nrows target = 1)
         \<and> (ncols input = ncols target \<or> ncols input = 1 \<or> ncols target = 1)
      then average (concat (map (\<lambda>i. map (\<lambda>j.
             (broadcast_at input i j - broadcast_at target i j) ^ 2)
             [0..<(if ncols input = 1 then ncols target else ncols input)])
             [0..<(if nrows input = 1 then nrows target else nrows input)]))
      else Inl RuntimeError)"

text \<open>\<^verbatim>\<open>torch.reshape(torch.mean(y_hat, dim=1), (-1, 1))\<close>: the mean of every row, as a column.\<close>

definition row_means :: "ndarray \<Rightarrow> py_error + ndarray" where
  "row_means a =
     bnd (collect (map (\<lambda>r. divide_checked (sum_list r) (real (ncols a))) (rows a)))
       (\<lambda>v. Inr (reshape_col v))"

text \<open>
  \<^verbatim>\<open>evaluate\<close> returns the three metrics; with a stage it also logs the loss and the
  metrics under the stage's name, in this order.
\<close>

definition evaluate ::
  "backbone \<Rightarrow> (nat \<Rightarrow> real list list option) \<Rightarrow> ndarray \<times> ndarray \<Rightarrow> string \<Rightarrow>
   py_error + ((string \<times> real) list \<times> (real \<times> real \<times> real))" where
  "evaluate bb masks batch stage =
     (case batch of (x, y) \<Rightarrow>
        bnd (forward bb masks x) (\<lambda>y_hat0.
        bnd (row_means y_hat0) (\<lambda>y_hat.
        bnd (MSELoss y_hat y) (\<lambda>loss.
        bnd (mean_absolute_error y y_hat) (\<lambda>MAE.
        bnd (mean_squared_error y y_hat) (\<lambda>mse.
        bnd (mean_absolute_percentage_error y y_hat) (\<lambda>MAPE.
          (let RMSE = sqrt mse;
               logs = (if stage \<noteq> [] then
                         [(stage @ ''_loss'', loss), (stage @ ''_MAE'', MAE),
                          (stage @ ''_RMSE'', RMSE), (stage @ ''_MAPE'', MAPE)]
                       else [])
           in Inr (logs, (MAE, RMSE, MAPE))))))))))"

text \<open>
  \<^verbatim>\<open>test_step\<close> over the single test batch, and line 189: the logged values without the
  first one, the loss.
\<close>

definition test_result :: "backbone \<Rightarrow> ndarray \<times> ndarray \<Rightarrow> py_error + real list" where
  "test_result bb batch =
     bnd (evaluate bb eval_mode batch ''test'') (\<lambda>(logs, m). Inr (tl (map snd logs)))"

section \<open>Training with early stopping (\<^verbatim>\<open>cli_main\<close>, lines 176 to 182)\<close>

text \<open>
  \<^verbatim>\<open>EarlyStopping\<close> and \<^verbatim>\<open>Trainer\<close> are pytorch-lightning's. The callback keeps the
  best monitored value seen (none at the start, which stands for the worst possible
  one) and a count of the checks since then. After a validation run it reads the
  monitored key from the logged metrics (\<open>RuntimeError\<close> when the key is not there); a
  value better than the best one by more than \<open>min_delta\<close> becomes the best one and
  resets the count, any other value increases the count, and a count that has reached
  \<open>patience\<close> asks the trainer to stop. A mode other than \<^verbatim>\<open>"min"\<close> and \<^verbatim>\<open>"max"\<close>
  is refused when the callback is built. The stored \<open>min_delta\<close> has its sign turned in
  minimisation mode, as in the library.

  The trainer runs at most \<open>max_epochs\<close> epochs; after every epoch whose number (from
  1) is a multiple of \<open>check_val_every_n_epoch\<close> it validates and calls the callback,
  and it ends after an epoch in which the callback asked to stop. The network's
  training itself is not modelled: \<open>val_logs k\<close> stands for the metrics logged by the
  \<open>k\<close>-th validation run.
\<close>

record early_stopping =
  monitor :: string
  min_delta :: real
  patience :: nat
  mode :: string
  wait_count :: nat
  best_score :: "real option"

definition EarlyStopping :: "string \<Rightarrow> real \<Rightarrow> nat \<Rightarrow> string \<Rightarrow> py_error + early_stopping" where
  "EarlyStopping mon delta pat md =
     (if md \<noteq> ''min'' \<and> md \<noteq> ''max'' then Inl RuntimeError
      else Inr \<lparr>monitor = mon, min_delta = (if md = ''max'' then delta else - delta),
                patience = pat, mode = md, wait_count = 0, best_score = None\<rparr>)"

definition monitor_op :: "early_stopping \<Rightarrow> real \<Rightarrow> real option \<Rightarrow> bool" where
  "monitor_op es a best =
     (case best of
        None \<Rightarrow> True
      | Some b \<Rightarrow> if mode es = ''min'' then a < b else a > b)"

definition evaluate_stopping_criteria :: "early_stopping \<Rightarrow> real \<Rightarrow> early_stopping \<times> bool" where
  "evaluate_stopping_criteria es current =
     (if monitor_op es (current - min_delta es) (best_score es)
      then (es\<lparr>best_score := Some current, wait_count := 0\<rparr>, False)
      else (es\<lparr>wait_count := wait_count es + 1\<rparr>, wait_count es + 1 \<ge> patience es))"

definition on_validation_end ::
  "early_stopping \<Rightarrow> (string \<times> real) list \<Rightarrow> py_error + (early_stopping \<times> bool)" where
  "on_validation_end es logs =
     (case map_of logs (monitor es) of
        None \<Rightarrow> Inl RuntimeError
      | Some current \<Rightarrow> Inr (evaluate_stopping_criteria es current))"

fun fit_epochs ::
  "nat \<Rightarrow> nat \<Rightarrow> nat \<Rightarrow> early_stopping \<Rightarrow> (nat \<Rightarrow> (string \<times> real) list) \<Rightarrow>
   py_error + (nat \<times> early_stopping)" where
  "fit_epochs 0 every epoch es val_logs = Inr (epoch, es)"
| "fit_epochs (Suc r) every epoch es val_logs =
     (if (epoch + 1) mod every = 0 then
        (case on_validation_end es (val_logs ((epoch + 1) div every)) of
           Inl e \<Rightarrow> Inl e
         | Inr (es', stop) \<Rightarrow>
             if stop then Inr (epoch + 1, es')
             else fit_epochs r every (epoch + 1) es' val_logs)
      else fit_epochs r every (epoch + 1) es val_logs)"

text \<open>
  Lines 176 to 182: the callback monitors \<^verbatim>\<open>val_MAE\<close> with \<open>min_delta = 0\<close>,
  \<open>patience = 10\<close> and mode \<^verbatim>\<open>"min"\<close>; the trainer has \<open>max_epochs = 500\<close> and
  \<open>check_val_every_n_epoch = 10\<close>. The result is the number of epochs run and the
  callback's last state.
\<close>

definition trainer_fit ::
  "(nat \<Rightarrow> (string \<times> real) list) \<Rightarrow> py_error + (nat \<times> early_stopping)" where
  "trainer_fit val_logs =
     bnd (EarlyStopping ''val_MAE'' 0 10 ''min'')
       (\<lambda>early_stop_callback. fit_epochs 500 10 0 early_stop_callback val_logs)"

text \<open>
  Two notions that are not in the code: they say, over the sequence of validation MAEs
  alone, what early stopping is expected to react to. Check \<open>k\<close> (counted from 1)
  improves when its MAE is below the MAE of every earlier check. The sequence has
  stalled at check \<open>s\<close> when there are at least ten checks up to \<open>s\<close> and none of the
  last ten of them improves.
\<close>

definition improves_at :: "(nat \<Rightarrow> real) \<Rightarrow> nat \<Rightarrow> bool" where
  "improves_at mae k = list_all (\<lambda>j. mae k < mae j) [1..<k]"

definition stalled_at :: "(nat \<Rightarrow> real) \<Rightarrow> nat \<Rightarrow> bool" where
  "stalled_at mae s = (10 \<le> s \<and> list_all (\<lambda>k. \<not> improves_at mae k) [s - 9..<s + 1])"

section \<open>The result table (\<^verbatim>\<open>cli_main\<close>, lines 193 to 201)\<close>

text \<open>
  \<^verbatim>\<open>results.mean(0)\<close> and \<^verbatim>\<open>results.std(0)\<close> are NumPy's, column by column: the sum
  over the number of rows, and the square root of the mean squared deviation from that
  mean (the default \<open>ddof = 0\<close>). A data frame's column labels are the positions
  \<open>0, 1, \<dots>\<close> until names are assigned, and assigning a list of another length raises
  \<open>ValueError\<close>. \<^verbatim>\<open>os.path.join\<close> is the POSIX one.
\<close>

datatype label = Position nat | Name string

record result_file =
  path :: string
  columns :: "label list"
  table :: "real list list"

definition np_mean0 :: "ndarray \<Rightarrow> py_error + real list" where
  "np_mean0 a = collect (map (\<lambda>j. average (column a j)) [0..<ncols a])"

definition np_std0 :: "ndarray \<Rightarrow> py_error + real list" where
  "np_std0 a =
     collect (map (\<lambda>j.
        bnd (average (column a j)) (\<lambda>m.
        bnd (average (map (\<lambda>v. \<bar>v - m\<bar> ^ 2) (column a j))) (\<lambda>var. Inr (sqrt var))))
      [0..<ncols a])"

definition join_step :: "string \<Rightarrow> string \<Rightarrow> string" where
  "join_step p b =
     (if b \<noteq> [] \<and> hd b = CHR ''/'' then b
      else if p = [] \<or> last p = CHR ''/'' then p @ b
      else p @ ''/'' @ b)"

definition os_path_join :: "string \<Rightarrow> string list \<Rightarrow> string" where
  "os_path_join a ps = foldl join_step a ps"

definition set_columns :: "string list \<Rightarrow> result_file \<Rightarrow> py_error + result_file" where
  "set_columns names f =
     (if length names \<noteq> length (columns f) then Inl ValueError
      else Inr (f\<lparr>columns := map Name names\<rparr>))"

definition write_results :: "string \<Rightarrow> string \<Rightarrow> ndarray \<Rightarrow> py_error + result_file" where
  "write_results dataset task results =
     bnd (np_mean0 results) (\<lambda>mean_row.
     bnd (np_std0 results) (\<lambda>std_row.
       (let resultpd = \<lparr>path = [], columns = map Position [0..<ncols results],
                        table = (rows results @ [mean_row]) @ [std_row]\<rparr>
        in
     bnd (if task = ''Latency''
          then set_columns [''latency_MAE'', ''latency_RMSE'', ''latency_MAPE''] resultpd
          else Inr resultpd) (\<lambda>resultpd.
     bnd (if task = ''Throughput''
          then set_columns [''throughput_MAE'', ''throughput_RMSE'', ''throughput_MAPE'']
                 resultpd
          else Inr resultpd) (\<lambda>resultpd.
       Inr (resultpd\<lparr>path := os_path_join dataset [task, ''Ensemble_result.csv'']\<rparr>))))))"

section \<open>Command-line arguments (\<^verbatim>\<open>cli_main\<close>, lines 116 to 123)\<close>

text \<open>An option that is not given takes the parser's default.\<close>

record args =
  args_batch_size :: int
  args_learning_rate :: real
  args_dataset :: string
  args_task :: string

definition parse_args ::
  "int option \<Rightarrow> real option \<Rightarrow> string option \<Rightarrow> string option \<Rightarrow> args" where
  "parse_args b l d t =
     \<lparr>args_batch_size = (case b of None \<Rightarrow> 32 | Some v \<Rightarrow> v),
      args_learning_rate = (case l of None \<Rightarrow> 1 / 1000 | Some v \<Rightarrow> v),
      args_dataset = (case d of None \<Rightarrow> ''MMBPD'' | Some v \<Rightarrow> v),
      args_task = (case t of None \<Rightarrow> ''Throughput'' | Some v \<Rightarrow> v)\<rparr>"

section \<open>A small run\<close>

text \<open>
  Five records with two features, the second one constant, and one fold of them: the
  values the theorems below are instantiated at.
\<close>

definition X_ex :: ndarray where
  "X_ex = \<lparr>ncols = 2, rows = [[1, 7], [3, 7], [5, 7], [2, 7], [9, 7]]\<rparr>"

definition Y_ex :: ndarray where
  "Y_ex = \<lparr>ncols = 1, rows = [[10], [0], [30], [40], [50]]\<rparr>"

definition split_ex :: "nat list \<times> nat list" where
  "split_ex = ([0, 2, 4], [1, 3])"

definition Xtrain_ex :: ndarray where
  "Xtrain_ex = \<lparr>ncols = 2, rows = [[1, 7], [5, 7], [9, 7]]\<rparr>"

definition Xtest_ex :: ndarray where
  "Xtest_ex = \<lparr>ncols = 2, rows = [[3, 7], [2, 7]]\<rparr>"

definition state_ex :: minmax_state where
  "state_ex =
     \<lparr>data_min = [1, 7], data_max = [9, 7], data_range = [8, 0],
      scale = [1 / 8, 1], min_shift = [- (1 / 8), - 7]\<rparr>"

definition train_ds_ex :: blockchain_dataset where
  "train_ds_ex =
     \<lparr>len = 3, x_data = \<lparr>ncols = 2, rows = [[0, 0], [1 / 2, 0], [1, 0]]\<rparr>,
      y_data = \<lparr>ncols = 1, rows = [[10], [30], [50]]\<rparr>\<rparr>"

definition test_ds_ex :: blockchain_dataset where
  "test_ds_ex =
     \<lparr>len = 2, x_data = \<lparr>ncols = 2, rows = [[1 / 4, 0], [1 / 8, 0]]\<rparr>,
      y_data = \<lparr>ncols = 1, rows = [[0], [40]]\<rparr>\<rparr>"

definition fold_ex :: fold_data where
  "fold_ex =
     \<lparr>min_max_scaler1 = Some state_ex,
      train_dataset = train_ds_ex, val_dataset = test_ds_ex, test_dataset = test_ds_ex,
      train_loader = \<lparr>dl_dataset = train_ds_ex, batch_size = 2, dl_shuffle = False\<rparr>,
      val_loader = \<lparr>dl_dataset = test_ds_ex, batch_size = 2, dl_shuffle = False\<rparr>,
      test_loader = \<lparr>dl_dataset = test_ds_ex, batch_size = 2, dl_shuffle = False\<rparr>\<rparr>"



definition raw_hfbtp_ex :: ndarray where
  "raw_hfbtp_ex =
     \<lparr>ncols = 5, rows = [[1, 2, 3, 4, 5], [2, 3, 4, 5, 6], [3, 4, 5, 6, 7],
                         [4, 5, 6, 7, 8], [5, 6, 7, 8, 9]]\<rparr>"

text \<open>The metrics of five folds.\<close>

definition results_ex :: ndarray where
  "results_ex =
     \<lparr>ncols = 3, rows = [[1, 2, 3], [1, 2, 3], [1, 2, 3], [1, 2, 3], [6, 2, 3]]\<rparr>"

text \<open>An initialisation of the layers, all weights and biases zero.\<close>

definition zero_init :: "nat \<Rightarrow> nat \<Rightarrow> real list list \<times> real list" where
  "zero_init i k = (replicate k (replicate i 0), replicate k 0)"

text \<open>A stand-in for the seeded generator: it leaves the indices in decreasing order.\<close>

definition rng_ex :: "nat \<Rightarrow> nat \<Rightarrow> nat list" where
  "rng_ex s n = rev [0..<n]"

text \<open>
  Logged validation metrics whose MAE is 1 at the first check and 2 at every later one,
  and the callback's state when a run over them ends.
\<close>

definition mae_ex :: "nat \<Rightarrow> real" where
  "mae_ex k = (if k = 1 then 1 else 2)"

definition val_logs_ex :: "nat \<Rightarrow> (string \<times> real) list" where
  "val_logs_ex k =
     [(''val_loss'', 9), (''val_MAE'', mae_ex k), (''val_RMSE'', 3), (''val_MAPE'', 1 / 2)]"

definition es_final_ex :: early_stopping where
  "es_final_ex =
     \<lparr>monitor = ''val_MAE'', min_delta = 0, patience = 10, mode = ''min'',
      wait_count = 10, best_score = Some 1\<rparr>"

text \<open>
  Logged validation metrics whose MAE goes down at every check, and the callback's state
  when a run over them ends.
\<close>

definition mae_down_ex :: "nat \<Rightarrow> real" where
  "mae_down_ex k = 1000 - real k"

definition val_logs_down_ex :: "nat \<Rightarrow> (string \<times> real) list" where
  "val_logs_down_ex k = [(''val_loss'', 9), (''val_MAE'', mae_down_ex k)]"

definition es_down_final_ex :: early_stopping where
  "es_down_final_ex =
     \<lparr>monitor = ''val_MAE'', min_delta = 0, patience = 10, mode = ''min'',
      wait_count = 0, best_score = Some 950\<rparr>"

section \<open>Basic facts\<close>

lemma bnd_Inr_iff: "bnd m f = Inr y \<longleftrightarrow> (\<exists>v. m = Inr v \<and> f v = Inr y)"
  by (cases m) (simp_all add: bnd_def)

lemma bnd_Inr [simp]: "bnd (Inr v) f = f v"
  by (simp add: bnd_def)

lemma bnd_Inl [simp]: "bnd (Inl e) f = Inl e"
  by (simp add: bnd_def)

lemma collect_divide:
  "(\<And>x. x \<in> set xs \<Longrightarrow> g x \<noteq> 0) \<Longrightarrow>
   collect (map (\<lambda>x. divide_checked (f x) (g x)) xs) = Inr (map (\<lambda>x. f x / g x) xs)"
  by (induction xs) (simp_all add: divide_checked_def)

lemma collect_pure: "collect (map (\<lambda>x. Inr (f x)) xs) = Inr (map f xs)"
  by (induction xs) simp_all

lemma take_rows_nrows: "take_rows a idx = Inr b \<Longrightarrow> nrows b = length idx \<and> ncols b = ncols a"
  by (auto simp: take_rows_def nrows_def split: if_splits)

subsection \<open>The scaler\<close>

lemma handle_zero_nonzero: "handle_zero s \<noteq> 0"
  by (simp add: handle_zero_def float_eps_def)

lemma handle_zero_0: "handle_zero 0 = 1"
  by (simp add: handle_zero_def float_eps_def)

text \<open>Fitting succeeds on every array with a row and a column: no divisor is zero.\<close>

lemma fit_total:
  assumes "nrows X \<noteq> 0" "ncols X \<noteq> 0"
  shows "\<exists>st. fit X = Inr st \<and> length (scale st) = ncols X \<and> length (min_shift st) = ncols X
    \<and> (\<forall>j<ncols X.
          data_min st ! j = np_min (column X j) \<and> data_max st ! j = np_max (column X j)
        \<and> scale st ! j = 1 / handle_zero (np_max (column X j) - np_min (column X j))
        \<and> min_shift st ! j = 0 - np_min (column X j) * scale st ! j)"
proof -
  have c: "collect (map (divide_checked 1) (handle_zeros_in_scale
             (map2 (-) (map np_max (map (column X) [0..<ncols X]))
                       (map np_min (map (column X) [0..<ncols X])))))
          = Inr (map (\<lambda>j. 1 / handle_zero (np_max (column X j) - np_min (column X j)))
                  [0..<ncols X])"
    using collect_divide [of "[0..<ncols X]"
        "\<lambda>j. handle_zero (np_max (column X j) - np_min (column X j))" "\<lambda>j. 1"]
    by (simp add: handle_zeros_in_scale_def handle_zero_nonzero zip_map_map
        map_zip_map zip_same_conv_map comp_def del: upt.simps)
  show ?thesis
    using assms unfolding fit_def Let_def c
    by (simp add: zip_map_map zip_same_conv_map comp_def del: upt.simps)
qed

lemma np_min_max_const:
  assumes "v \<noteq> []" "\<forall>x\<in>set v. x = c"
  shows "np_min v = c" "np_max v = c"
proof -
  obtain x xs where v: "v = x # xs" using assms(1) by (cases v) auto
  have s: "set v = {c}" using assms v by auto
  have "np_min v = Min (set v)"
    unfolding v np_min_def using Min.set_eq_fold [of x xs] by simp
  then show "np_min v = c" using s by simp
  have "np_max v = Max (set v)"
    unfolding v np_max_def using Max.set_eq_fold [of x xs] by simp
  then show "np_max v = c" using s by simp
qed

lemma scale_row_nth:
  assumes "length r = length (scale st)" "length (min_shift st) = length (scale st)"
    "j < length r"
  shows "scale_row st r ! j = r ! j * scale st ! j + min_shift st ! j"
  using assms by (simp add: scale_row_def)

subsection \<open>The body of the fold loop\<close>

lemma prepare_fold_InrD:
  assumes "prepare_fold bs X Y1 (tr, te) = Inr f"
  shows "\<exists>Xtr Xte Ytr Yte Ztr Zte st.
    take_rows X tr = Inr Xtr \<and> take_rows X te = Inr Xte \<and>
    take_rows Y1 tr = Inr Ytr \<and> take_rows Y1 te = Inr Yte \<and>
    fit_transform MinMaxScaler Xtr = Inr (Ztr, Some st) \<and> fit Xtr = Inr st \<and>
    transform (Some st) Xte = Inr Zte \<and> 0 < bs \<and> te \<noteq> [] \<and>
    f = \<lparr>min_max_scaler1 = Some st,
         train_dataset = BlockChainDataset Ztr Ytr,
         val_dataset = BlockChainDataset Zte Yte,
         test_dataset = BlockChainDataset Zte Yte,
         train_loader = \<lparr>dl_dataset = BlockChainDataset Ztr Ytr, batch_size = nat bs,
                          dl_shuffle = False\<rparr>,
         val_loader = \<lparr>dl_dataset = BlockChainDataset Zte Yte, batch_size = length te,
                        dl_shuffle = False\<rparr>,
         test_loader = \<lparr>dl_dataset = BlockChainDataset Zte Yte, batch_size = length te,
                         dl_shuffle = False\<rparr>\<rparr>"
proof -
  from assms obtain Xtr Xte Ytr Yte Ztr sc Zte trl vl tl where
    a: "take_rows X tr = Inr Xtr" "take_rows X te = Inr Xte"
       "take_rows Y1 tr = Inr Ytr" "take_rows Y1 te = Inr Yte"
       "fit_transform MinMaxScaler Xtr = Inr (Ztr, sc)" "transform sc Xte = Inr Zte"
    and l: "DataLoader (BlockChainDataset Ztr Ytr) bs None = Inr trl"
       "DataLoader (BlockChainDataset Zte Yte) (int (nrows Yte)) (Some False) = Inr vl"
       "DataLoader (BlockChainDataset Zte Yte) (int (nrows Xte)) (Some False) = Inr tl"
    and f: "f = \<lparr>min_max_scaler1 = sc,
         train_dataset = BlockChainDataset Ztr Ytr,
         val_dataset = BlockChainDataset Zte Yte,
         test_dataset = BlockChainDataset Zte Yte,
         train_loader = trl, val_loader = vl, test_loader = tl\<rparr>"
    unfolding prepare_fold_def Let_def by (auto simp: bnd_Inr_iff)
  from a(5) obtain st where st: "fit Xtr = Inr st" "sc = Some st"
    by (auto simp: fit_transform_def bnd_Inr_iff)
  have n: "nrows Yte = length te" "nrows Xte = length te"
    using take_rows_nrows a by blast+
  from l n have "0 < bs" "te \<noteq> []"
    "trl = \<lparr>dl_dataset = BlockChainDataset Ztr Ytr, batch_size = nat bs, dl_shuffle = False\<rparr>"
    "vl = \<lparr>dl_dataset = BlockChainDataset Zte Yte, batch_size = length te, dl_shuffle = False\<rparr>"
    "tl = \<lparr>dl_dataset = BlockChainDataset Zte Yte, batch_size = length te, dl_shuffle = False\<rparr>"
    by (auto simp: DataLoader_def split: if_splits)
  with a st f show ?thesis by blast
qed

subsection \<open>Batches\<close>

lemma chunks_unfold:
  "0 < n \<Longrightarrow> xs \<noteq> [] \<Longrightarrow> chunks n xs = take n xs # chunks n (drop n xs)"
  by simp

lemma chunks_Nil: "chunks n [] = []"
  by simp

declare chunks.simps [simp del]

lemma concat_chunks: "0 < n \<Longrightarrow> concat (chunks n xs) = xs"
proof (induction n xs rule: chunks.induct)
  case (1 n xs)
  then show ?case by (cases "xs = []") (simp_all add: chunks_unfold chunks_Nil)
qed

lemma chunks_nth:
  "0 < n \<Longrightarrow> i < length (chunks n xs) \<Longrightarrow> chunks n xs ! i = take n (drop (i * n) xs)"
proof (induction n xs arbitrary: i rule: chunks.induct)
  case (1 n xs)
  show ?case
  proof (cases "xs = []")
    case True
    with 1 show ?thesis by (simp add: chunks_Nil)
  next
    case False
    show ?thesis
    proof (cases i)
      case 0
      with False 1(2) show ?thesis by (simp add: chunks_unfold)
    next
      case (Suc k)
      with False 1 show ?thesis by (simp add: chunks_unfold add.commute)
    qed
  qed
qed

lemma take_upt_min: "take n [k..<L] = [k..<min L (k + n)]"
proof (cases "k + n \<le> L")
  case True
  then show ?thesis by (simp add: take_upt min_def)
next
  case False
  then show ?thesis by (simp add: min_def)
qed

lemma chunks_single: "xs \<noteq> [] \<Longrightarrow> chunks (length xs) xs = [xs]"
  by (simp add: chunks_unfold chunks_Nil)

subsection \<open>The small run, evaluated\<close>

lemma take_rows_ex:
  "take_rows X_ex [0, 2, 4] = Inr Xtrain_ex" "take_rows X_ex [1, 3] = Inr Xtest_ex"
  "take_rows Y_ex [0, 2, 4] = Inr \<lparr>ncols = 1, rows = [[10], [30], [50]]\<rparr>"
  "take_rows Y_ex [1, 3] = Inr \<lparr>ncols = 1, rows = [[0], [40]]\<rparr>"
  by (simp_all add: take_rows_def X_ex_def Y_ex_def Xtrain_ex_def Xtest_ex_def nrows_def)

lemma fit_ex: "fit Xtrain_ex = Inr state_ex"
  by (simp add: fit_def Xtrain_ex_def state_ex_def nrows_def column_def np_min_def np_max_def
      handle_zeros_in_scale_def handle_zero_def float_eps_def divide_checked_def
      Let_def upt_conv_Cons)

lemma transform_ex:
  "transform (Some state_ex) Xtrain_ex = Inr (x_data train_ds_ex)"
  "transform (Some state_ex) Xtest_ex = Inr (x_data test_ds_ex)"
  by (simp_all add: transform_def Xtrain_ex_def Xtest_ex_def state_ex_def nrows_def
      scale_row_def train_ds_ex_def test_ds_ex_def)

lemma fit_transform_ex:
  "fit_transform MinMaxScaler Xtrain_ex = Inr (x_data train_ds_ex, Some state_ex)"
  by (simp add: fit_transform_def fit_ex transform_ex)

lemma prepare_fold_ex: "prepare_fold 2 X_ex Y_ex split_ex = Inr fold_ex"
  unfolding prepare_fold_def split_ex_def prod.case take_rows_ex bnd_Inr fit_transform_ex
    transform_ex Let_def
  by (simp add: BlockChainDataset_def DataLoader_def fold_ex_def train_ds_ex_def
      test_ds_ex_def Xtest_ex_def nrows_def)


section \<open>Properties\<close>

text \<open>
  C10. In every fold the validation dataset, which early stopping monitors, and the test
  dataset, which gives the reported metrics, are built from the same two arrays: the
  held-out features scaled by the fold's scaler and the held-out targets. The two
  loaders over them are equal as well.
\<close>

theorem val_and_test_dataset_identical:
  assumes "prepare_fold bs X Y1 split = Inr f"
  shows "val_dataset f = test_dataset f \<and> val_loader f = test_loader f
     \<and> dl_dataset (val_loader f) = val_dataset f \<and> dl_dataset (test_loader f) = test_dataset f
     \<and> (\<exists>Xtest Ytest. take_rows X (snd split) = Inr Xtest \<and> take_rows Y1 (snd split) = Inr Ytest
          \<and> transform (min_max_scaler1 f) Xtest = Inr (x_data (test_dataset f))
          \<and> y_data (test_dataset f) = Ytest)"
proof -
  obtain tr te where s: "split = (tr, te)" by (cases split)
  from prepare_fold_InrD [OF assms [unfolded s]] show ?thesis
    unfolding s by (auto simp: BlockChainDataset_def)
qed

theorem val_and_test_dataset_identical_witness:
  "prepare_fold 2 X_ex Y_ex split_ex = Inr fold_ex
   \<and> val_dataset fold_ex = test_dataset fold_ex \<and> val_loader fold_ex = test_loader fold_ex"
  using val_and_test_dataset_identical [OF prepare_fold_ex] prepare_fold_ex by simp

text \<open>
  C8. When a feature column is constant over the train split (its maximum equals its
  minimum), fitting and transforming raise nothing, in particular no division by zero:
  the zero range is replaced by 1, so the column's scale is 1 and its shift is the
  negated constant. The outcome is fixed: the column is 0 on the train split, and on any
  other array of the same width it is the value minus the constant.
\<close>

theorem constant_column_scaled_without_error:
  assumes "wf_ndarray X" "nrows X \<noteq> 0" "j < ncols X" "\<forall>r\<in>set (rows X). r ! j = c"
  shows "\<exists>Z st. fit_transform sc X = Inr (Z, Some st) \<and> scale st ! j = 1 \<and> min_shift st ! j = - c
           \<and> (\<forall>r\<in>set (rows Z). r ! j = 0)
           \<and> (\<forall>X'. wf_ndarray X' \<and> nrows X' \<noteq> 0 \<and> ncols X' = ncols X \<longrightarrow>
                (\<exists>Z'. transform (Some st) X' = Inr Z' \<and> nrows Z' = nrows X' \<and>
                   (\<forall>i<nrows X'. rows Z' ! i ! j = rows X' ! i ! j - c)))"
proof -
  have nc: "ncols X \<noteq> 0" using assms(3) by simp
  have col: "column X j \<noteq> []" "\<forall>x\<in>set (column X j). x = c"
    using assms(2,4) by (auto simp: column_def nrows_def)
  have mn: "np_min (column X j) = c" and mx: "np_max (column X j) = c"
    using np_min_max_const [OF col] by simp_all
  from fit_total [OF assms(2) nc] obtain st where fit: "fit X = Inr st"
    and len: "length (scale st) = ncols X" "length (min_shift st) = ncols X"
    and sc0: "scale st ! j = 1 / handle_zero (np_max (column X j) - np_min (column X j))"
    and ms0: "min_shift st ! j = 0 - np_min (column X j) * scale st ! j"
    using assms(3) by blast
  have sc: "scale st ! j = 1" using sc0 mn mx by (simp add: handle_zero_0)
  have ms: "min_shift st ! j = - c" using ms0 sc mn by simp
  have tr: "transform (Some st) X' = Inr \<lparr>ncols = ncols X', rows = map (scale_row st) (rows X')\<rparr>"
    if "nrows X' \<noteq> 0" "ncols X' = ncols X" for X'
    using that nc len by (simp add: transform_def)
  have el: "scale_row st r ! j = r ! j - c" if "length r = ncols X" for r
    using scale_row_nth [of r st j] that len assms(3) sc ms by simp
  have ft: "fit_transform sc X =
      Inr (\<lparr>ncols = ncols X, rows = map (scale_row st) (rows X)\<rparr>, Some st)"
    using fit tr [OF assms(2) refl] by (simp add: fit_transform_def)
  have z: "\<forall>r\<in>set (rows \<lparr>ncols = ncols X, rows = map (scale_row st) (rows X)\<rparr>). r ! j = 0"
    using el assms(1,4) by (auto simp: wf_ndarray_def list_all_iff)
  have t: "\<forall>X'. wf_ndarray X' \<and> nrows X' \<noteq> 0 \<and> ncols X' = ncols X \<longrightarrow>
                (\<exists>Z'. transform (Some st) X' = Inr Z' \<and> nrows Z' = nrows X' \<and>
                   (\<forall>i<nrows X'. rows Z' ! i ! j = rows X' ! i ! j - c))"
  proof (intro allI impI)
    fix X' assume a: "wf_ndarray X' \<and> nrows X' \<noteq> 0 \<and> ncols X' = ncols X"
    have "\<forall>i<nrows X'. map (scale_row st) (rows X') ! i ! j = rows X' ! i ! j - c"
      using a el by (auto simp: wf_ndarray_def list_all_iff nrows_def)
    then show "\<exists>Z'. transform (Some st) X' = Inr Z' \<and> nrows Z' = nrows X' \<and>
                   (\<forall>i<nrows X'. rows Z' ! i ! j = rows X' ! i ! j - c)"
      using tr [of X'] a by (simp add: nrows_def)
  qed
  from ft sc ms z t show ?thesis by blast
qed

theorem constant_column_scaled_without_error_witness:
  "wf_ndarray Xtrain_ex \<and> nrows Xtrain_ex \<noteq> 0 \<and> 1 < ncols Xtrain_ex
   \<and> list_all (\<lambda>r. r ! 1 = 7) (rows Xtrain_ex)
   \<and> (\<exists>Z st. fit_transform MinMaxScaler Xtrain_ex = Inr (Z, Some st) \<and> scale st ! 1 = 1
        \<and> min_shift st ! 1 = - 7 \<and> list_all (\<lambda>r. r ! 1 = 0) (rows Z))"
proof -
  have h: "wf_ndarray Xtrain_ex" "nrows Xtrain_ex \<noteq> 0" "1 < ncols Xtrain_ex"
    "\<forall>r\<in>set (rows Xtrain_ex). r ! 1 = 7"
    by (simp_all add: Xtrain_ex_def wf_ndarray_def nrows_def)
  from constant_column_scaled_without_error [OF h, of MinMaxScaler] h show ?thesis
    by (simp add: list_all_iff) blast
qed

text \<open>
  C2. The scaler of a fold is fitted on the fold's train split and on nothing else:
  the state it has after the loop body, the one applied to the held-out split, is the
  result of \<open>fit\<close> on the train rows. And on every array, transforming it with the
  state that \<open>fit_transform\<close> returned reproduces the output of \<open>fit_transform\<close>.
\<close>

theorem scaler_state_is_train_fit:
  "(fit_transform sc X = Inr (Z, sc') \<longrightarrow> transform sc' X = Inr Z)
   \<and> (prepare_fold bs X1 Y1 (train_index, test_index) = Inr f \<longrightarrow>
        (\<exists>Xtrain Xtest st.
           take_rows X1 train_index = Inr Xtrain \<and> take_rows X1 test_index = Inr Xtest
         \<and> fit Xtrain = Inr st \<and> min_max_scaler1 f = Some st
         \<and> fit_transform MinMaxScaler Xtrain = Inr (x_data (train_dataset f), Some st)
         \<and> transform (Some st) Xtrain = Inr (x_data (train_dataset f))
         \<and> transform (Some st) Xtest = Inr (x_data (test_dataset f))))"
proof (intro conjI impI)
  assume "fit_transform sc X = Inr (Z, sc')"
  then show "transform sc' X = Inr Z"
    by (auto simp: fit_transform_def bnd_Inr_iff)
next
  assume a: "prepare_fold bs X1 Y1 (train_index, test_index) = Inr f"
  from prepare_fold_InrD [OF a] obtain Xtr Xte Ytr Yte Ztr Zte st where
    b: "take_rows X1 train_index = Inr Xtr" "take_rows X1 test_index = Inr Xte"
       "fit_transform MinMaxScaler Xtr = Inr (Ztr, Some st)" "fit Xtr = Inr st"
       "transform (Some st) Xte = Inr Zte"
       "min_max_scaler1 f = Some st" "x_data (train_dataset f) = Ztr"
       "x_data (test_dataset f) = Zte"
    by (auto simp: BlockChainDataset_def)
  from b(3) have "transform (Some st) Xtr = Inr Ztr"
    by (auto simp: fit_transform_def bnd_Inr_iff)
  with b show "\<exists>Xtrain Xtest st.
           take_rows X1 train_index = Inr Xtrain \<and> take_rows X1 test_index = Inr Xtest
         \<and> fit Xtrain = Inr st \<and> min_max_scaler1 f = Some st
         \<and> fit_transform MinMaxScaler Xtrain = Inr (x_data (train_dataset f), Some st)
         \<and> transform (Some st) Xtrain = Inr (x_data (train_dataset f))
         \<and> transform (Some st) Xtest = Inr (x_data (test_dataset f))"
    by auto
qed

theorem scaler_state_is_train_fit_witness:
  "fit_transform MinMaxScaler Xtrain_ex = Inr (x_data train_ds_ex, Some state_ex)
   \<and> transform (Some state_ex) Xtrain_ex = Inr (x_data train_ds_ex)
   \<and> prepare_fold 2 X_ex Y_ex ([0, 2, 4], [1, 3]) = Inr fold_ex
   \<and> min_max_scaler1 fold_ex = Some state_ex \<and> fit Xtrain_ex = Inr state_ex
   \<and> transform (Some state_ex) Xtest_ex = Inr (x_data (test_dataset fold_ex))"
  using scaler_state_is_train_fit [of MinMaxScaler Xtrain_ex "x_data train_ds_ex" "Some state_ex"
      2 X_ex Y_ex "[0, 2, 4]" "[1, 3]" fold_ex]
    fit_transform_ex prepare_fold_ex [unfolded split_ex_def] take_rows_ex
  by auto

text \<open>
  C4, as the code has it. The train loader is built without a \<^verbatim>\<open>shuffle\<close> argument,
  so it does not shuffle: whatever permutation a random sampler would have drawn, its
  batches are the consecutive runs of \<open>batch_size\<close> indices (32 when the option is not
  given) of the train split in its own order, and together they cover it once. The
  validation and the test loader do not shuffle either and each yields one batch, the
  whole held-out split.
\<close>

theorem loaders_sequential:
  assumes "prepare_fold bs X Y1 split = Inr f"
  shows "args_batch_size (parse_args None l d t) = 32
     \<and> 0 < bs \<and> batch_size (train_loader f) = nat bs
     \<and> dl_dataset (train_loader f) = train_dataset f
     \<and> \<not> dl_shuffle (train_loader f)
     \<and> concat (batch_indices (train_loader f) perm) = [0..<len (train_dataset f)]
     \<and> (\<forall>i<length (batch_indices (train_loader f) perm).
           batch_indices (train_loader f) perm ! i
             = [i * nat bs..<min (len (train_dataset f)) (i * nat bs + nat bs)])
     \<and> \<not> dl_shuffle (val_loader f) \<and> \<not> dl_shuffle (test_loader f)
     \<and> dl_dataset (val_loader f) = val_dataset f \<and> dl_dataset (test_loader f) = test_dataset f
     \<and> len (val_dataset f) = length (snd split) \<and> len (test_dataset f) = length (snd split)
     \<and> batch_indices (val_loader f) perm = [[0..<len (val_dataset f)]]
     \<and> batch_indices (test_loader f) perm = [[0..<len (test_dataset f)]]"
proof -
  obtain tr te where s: "split = (tr, te)" by (cases split)
  from prepare_fold_InrD [OF assms [unfolded s]] obtain Xte Ytr Yte Ztr Zte st where
    te: "take_rows X te = Inr Xte" "transform (Some st) Xte = Inr Zte"
    and bs: "0 < bs" and ne: "te \<noteq> []"
    and f: "f = \<lparr>min_max_scaler1 = Some st,
         train_dataset = BlockChainDataset Ztr Ytr,
         val_dataset = BlockChainDataset Zte Yte,
         test_dataset = BlockChainDataset Zte Yte,
         train_loader = \<lparr>dl_dataset = BlockChainDataset Ztr Ytr, batch_size = nat bs,
                          dl_shuffle = False\<rparr>,
         val_loader = \<lparr>dl_dataset = BlockChainDataset Zte Yte, batch_size = length te,
                        dl_shuffle = False\<rparr>,
         test_loader = \<lparr>dl_dataset = BlockChainDataset Zte Yte, batch_size = length te,
                         dl_shuffle = False\<rparr>\<rparr>"
    by blast
  have nz: "nrows Zte = length te"
    using te take_rows_nrows [OF te(1)]
    by (auto simp: transform_def nrows_def split: if_splits)
  have b: "0 < nat bs" using bs by simp
  have c: "concat (batch_indices (train_loader f) perm) = [0..<len (train_dataset f)]"
    unfolding f by (simp add: batch_indices_def sampler_def concat_chunks [OF b])
  have n: "\<forall>i<length (batch_indices (train_loader f) perm).
           batch_indices (train_loader f) perm ! i
             = [i * nat bs..<min (len (train_dataset f)) (i * nat bs + nat bs)]"
    unfolding f
    by (simp add: batch_indices_def sampler_def chunks_nth [OF b] take_upt_min
        BlockChainDataset_def)
  have v: "batch_indices (val_loader f) perm = [[0..<len (val_dataset f)]]"
    "batch_indices (test_loader f) perm = [[0..<len (test_dataset f)]]"
    unfolding f using ne nz chunks_single [of "[0..<length te]"]
    by (simp_all add: batch_indices_def sampler_def BlockChainDataset_def)
  show ?thesis using c n v bs nz unfolding f s
    by (simp add: parse_args_def BlockChainDataset_def)
qed

theorem loaders_sequential_witness:
  "prepare_fold 2 X_ex Y_ex split_ex = Inr fold_ex
   \<and> batch_size (train_loader fold_ex) = 2 \<and> \<not> dl_shuffle (train_loader fold_ex)
   \<and> concat (batch_indices (train_loader fold_ex) [2, 1, 0]) = [0..<len (train_dataset fold_ex)]
   \<and> batch_indices (val_loader fold_ex) [1, 0] = [[0..<len (val_dataset fold_ex)]]"
  using loaders_sequential [OF prepare_fold_ex, of _ _ _ "[2, 1, 0]"]
    loaders_sequential [OF prepare_fold_ex, of _ _ _ "[1, 0]"] prepare_fold_ex
  by simp

text \<open>
  C4 as stated (training batches are drawn with shuffling) fails: in the small run the
  train loader's flag is off, and with a sampler permutation \<open>2, 1, 0\<close> at hand the
  batches are still \<open>[0, 1]\<close> and \<open>[2]\<close>.
\<close>

theorem train_loader_shuffles_counterexample:
  "prepare_fold 2 X_ex Y_ex split_ex = Inr fold_ex
   \<and> dl_shuffle (train_loader fold_ex) = False
   \<and> batch_indices (train_loader fold_ex) [2, 1, 0] = [[0, 1], [2]]"
  by (simp add: prepare_fold_ex fold_ex_def batch_indices_def sampler_def train_ds_ex_def
      chunks_unfold chunks_Nil upt_conv_Cons)




text \<open>
  C5. The first layer is built as \<^verbatim>\<open>nn.Linear(2, 128)\<close> whatever the dataset, while
  the comment on that line asks for 3 inputs with \<^verbatim>\<open>HFBTP\<close>. For \<^verbatim>\<open>HFBTP\<close> the
  selection yields three feature columns, and the forward pass raises on every batch
  of three columns.
\<close>

theorem backbone_input_fixed_at_two:
  "select_columns ''HFBTP'' ''Throughput'' raw_hfbtp_ex
     = Inr (Some (\<lparr>ncols = 3, rows = [[1, 2, 3], [2, 3, 4], [3, 4, 5], [4, 5, 6], [5, 6, 7]]\<rparr>,
                  \<lparr>ncols = 1, rows = [[4], [5], [6], [7], [8]]\<rparr>))
   \<and> in_features (fc1 (Backbone init)) = 2
   \<and> forward (Backbone init) masks \<lparr>ncols = 3, rows = batch\<rparr> = Inl RuntimeError"
  by (simp add: select_columns_def target_col_def index_col_def slice_cols_def reshape_col_def
      raw_hfbtp_ex_def Backbone_def Linear_def forward_def linear_forward_def)

subsection \<open>Means and deviations\<close>

lemma average_Inr: "v \<noteq> [] \<Longrightarrow> average v = Inr (sum_list v / real (length v))"
  by (simp add: average_def divide_checked_def)

lemma length_column: "length (column a j) = nrows a"
  by (simp add: column_def nrows_def)

lemma np_mean0_Inr:
  assumes "nrows a \<noteq> 0"
  shows "np_mean0 a = Inr (map (\<lambda>j. sum_list (column a j) / real (nrows a)) [0..<ncols a])"
proof -
  have "average (column a j) = Inr (sum_list (column a j) / real (nrows a))" for j
    using assms average_Inr [of "column a j"] length_column [of a j]
    by (cases "column a j") auto
  then show ?thesis
    unfolding np_mean0_def by (simp add: collect_pure del: upt.simps)
qed

lemma np_std0_Inr:
  assumes "nrows a \<noteq> 0"
  shows "np_std0 a = Inr (map (\<lambda>j. sqrt (sum_list (map (\<lambda>v.
            (v - sum_list (column a j) / real (nrows a))\<^sup>2) (column a j)) / real (nrows a)))
          [0..<ncols a])"
proof -
  have m: "average (column a j) = Inr (sum_list (column a j) / real (nrows a))" for j
    using assms average_Inr [of "column a j"] length_column [of a j]
    by (cases "column a j") auto
  have v: "average (map f (column a j)) = Inr (sum_list (map f (column a j)) / real (nrows a))"
    for j and f :: "real \<Rightarrow> real"
    using assms average_Inr [of "map f (column a j)"] length_column [of a j]
    by (cases "column a j") auto
  show ?thesis
    unfolding np_std0_def by (simp add: m v collect_pure del: upt.simps)
qed

lemma sqrt_4: "sqrt 4 = 2"
  by (rule real_sqrt_unique) simp_all

lemma np_mean0_ex: "np_mean0 results_ex = Inr [2, 2, 3]"
proof -
  have "nrows results_ex \<noteq> 0" by (simp add: results_ex_def nrows_def)
  from np_mean0_Inr [OF this] show ?thesis
    by (simp add: results_ex_def nrows_def column_def upt_conv_Cons)
qed

lemma np_std0_ex: "np_std0 results_ex = Inr [2, 0, 0]"
proof -
  have "nrows results_ex \<noteq> 0" by (simp add: results_ex_def nrows_def)
  from np_std0_Inr [OF this] show ?thesis
    by (simp add: results_ex_def nrows_def column_def upt_conv_Cons sqrt_4)
qed

text \<open>
  C7, as the code has it. For a table of five fold rows and three metrics the file
  written has the five fold rows, then the column-wise arithmetic mean, then the
  column-wise population standard deviation (the square root of the mean squared
  deviation from the mean, divisor 5), and three columns. The columns carry the task's
  name in lower case before \<^verbatim>\<open>_MAE\<close>, \<^verbatim>\<open>_RMSE\<close> and \<^verbatim>\<open>_MAPE\<close> when the task is
  \<^verbatim>\<open>"Latency"\<close> or \<^verbatim>\<open>"Throughput"\<close>; for any other task no names are assigned and
  they keep their positions 0, 1, 2. The path is \<^verbatim>\<open>os.path.join\<close> of the dataset, the
  task and the file name, which is \<^verbatim>\<open><dataset>/<task>/Ensemble_result.csv\<close> when the
  task is not empty and neither begins nor ends with a slash.
\<close>

theorem result_table_rows_mean_std:
  assumes "nrows results = 5" "ncols results = 3"
    "dataset = ''BPD-1'' \<or> dataset = ''HFBTP'' \<or> dataset = ''MMBPD''"
  shows "\<exists>f mean_row std_row.
      write_results dataset task results = Inr f
    \<and> path f = os_path_join dataset [task, ''Ensemble_result.csv'']
    \<and> (task \<noteq> [] \<and> hd task \<noteq> CHR ''/'' \<and> last task \<noteq> CHR ''/'' \<longrightarrow>
          path f = dataset @ ''/'' @ task @ ''/Ensemble_result.csv'')
    \<and> table f = rows results @ [mean_row, std_row]
    \<and> length mean_row = 3 \<and> length std_row = 3
    \<and> (\<forall>j<3. mean_row ! j = (\<Sum>r\<leftarrow>rows results. r ! j) / 5
            \<and> std_row ! j = sqrt ((\<Sum>r\<leftarrow>rows results. (r ! j - mean_row ! j)\<^sup>2) / 5))
    \<and> columns f = (if task = ''Latency''
         then [Name ''latency_MAE'', Name ''latency_RMSE'', Name ''latency_MAPE'']
         else if task = ''Throughput''
         then [Name ''throughput_MAE'', Name ''throughput_RMSE'', Name ''throughput_MAPE'']
         else [Position 0, Position 1, Position 2])"
proof -
  let ?mean = "map (\<lambda>j. sum_list (column results j) / real (nrows results)) [0..<ncols results]"
  let ?std = "map (\<lambda>j. sqrt (sum_list (map (\<lambda>v.
            (v - sum_list (column results j) / real (nrows results))\<^sup>2) (column results j))
              / real (nrows results))) [0..<ncols results]"
  let ?cols = "if task = ''Latency''
         then [Name ''latency_MAE'', Name ''latency_RMSE'', Name ''latency_MAPE'']
         else if task = ''Throughput''
         then [Name ''throughput_MAE'', Name ''throughput_RMSE'', Name ''throughput_MAPE'']
         else [Position 0, Position 1, Position 2]"
  let ?f = "\<lparr>path = os_path_join dataset [task, ''Ensemble_result.csv''],
           columns = ?cols, table = rows results @ [?mean, ?std]\<rparr>"
  have nz: "nrows results \<noteq> 0" using assms(1) by simp
  have p: "task \<noteq> [] \<and> hd task \<noteq> CHR ''/'' \<and> last task \<noteq> CHR ''/'' \<longrightarrow>
      os_path_join dataset [task, ''Ensemble_result.csv'']
      = dataset @ ''/'' @ task @ ''/Ensemble_result.csv''"
    using assms(3) by (auto simp: os_path_join_def join_step_def)
  have u: "[0..<3] = [0, 1, 2::nat]" by (simp add: upt_conv_Cons)
  have w: "write_results dataset task results = Inr ?f"
    unfolding write_results_def np_mean0_Inr [OF nz] np_std0_Inr [OF nz] bnd_Inr Let_def
    using assms(2) by (auto simp: set_columns_def u)
  have l: "length ?mean = 3" "length ?std = 3" using assms(2) by simp_all
  have e: "\<forall>j<3. ?mean ! j = (\<Sum>r\<leftarrow>rows results. r ! j) / 5
            \<and> ?std ! j = sqrt ((\<Sum>r\<leftarrow>rows results. (r ! j - ?mean ! j)\<^sup>2) / 5)"
    using assms(1,2) by (simp add: column_def comp_def del: upt.simps)
  have g: "path ?f = os_path_join dataset [task, ''Ensemble_result.csv'']"
    "table ?f = rows results @ [?mean, ?std]" "columns ?f = ?cols"
    by simp_all
  have p': "task \<noteq> [] \<and> hd task \<noteq> CHR ''/'' \<and> last task \<noteq> CHR ''/'' \<longrightarrow>
      path ?f = dataset @ ''/'' @ task @ ''/Ensemble_result.csv''"
    using p by simp
  show ?thesis
  proof (intro exI conjI)
    show "write_results dataset task results = Inr ?f" by (rule w)
    show "path ?f = os_path_join dataset [task, ''Ensemble_result.csv'']" by (rule g(1))
    show "task \<noteq> [] \<and> hd task \<noteq> CHR ''/'' \<and> last task \<noteq> CHR ''/'' \<longrightarrow>
      path ?f = dataset @ ''/'' @ task @ ''/Ensemble_result.csv''" by (rule p')
    show "table ?f = rows results @ [?mean, ?std]" by (rule g(2))
    show "length ?mean = 3" by (rule l(1))
    show "length ?std = 3" by (rule l(2))
    show "\<forall>j<3. ?mean ! j = (\<Sum>r\<leftarrow>rows results. r ! j) / 5
            \<and> ?std ! j = sqrt ((\<Sum>r\<leftarrow>rows results. (r ! j - ?mean ! j)\<^sup>2) / 5)"
      by (rule e)
    show "columns ?f = ?cols" by (rule g(3))
  qed
qed

theorem result_table_rows_mean_std_witness:
  "nrows results_ex = 5 \<and> ncols results_ex = 3
   \<and> write_results ''MMBPD'' ''Throughput'' results_ex =
       Inr \<lparr>path = ''MMBPD/Throughput/Ensemble_result.csv'',
            columns = [Name ''throughput_MAE'', Name ''throughput_RMSE'', Name ''throughput_MAPE''],
            table = [[1, 2, 3], [1, 2, 3], [1, 2, 3], [1, 2, 3], [6, 2, 3], [2, 2, 3], [2, 0, 0]]\<rparr>"
proof -
  have h: "nrows results_ex = 5" "ncols results_ex = 3"
    by (simp_all add: results_ex_def nrows_def)
  have d: "''MMBPD'' = ''BPD-1'' \<or> ''MMBPD'' = ''HFBTP'' \<or> ''MMBPD'' = ''MMBPD''"
    by simp
  from result_table_rows_mean_std [OF h d, where task = "''Throughput''"]
  obtain f mean_row std_row where
    w: "write_results ''MMBPD'' ''Throughput'' results_ex = Inr f"
    and f: "path f = ''MMBPD/Throughput/Ensemble_result.csv''"
      "table f = rows results_ex @ [mean_row, std_row]"
      "columns f = [Name ''throughput_MAE'', Name ''throughput_RMSE'', Name ''throughput_MAPE'']"
    and l: "length mean_row = 3" "length std_row = 3"
    and e: "\<forall>j<3. mean_row ! j = (\<Sum>r\<leftarrow>rows results_ex. r ! j) / 5
            \<and> std_row ! j = sqrt ((\<Sum>r\<leftarrow>rows results_ex. (r ! j - mean_row ! j)\<^sup>2) / 5)"
    by auto
  have m: "mean_row ! 0 = 2" "mean_row ! 1 = 2" "mean_row ! 2 = 3"
    using e [rule_format, of 0] e [rule_format, of 1] e [rule_format, of 2]
    by (simp_all add: results_ex_def)
  have s: "std_row ! 0 = 2" "std_row ! 1 = 0" "std_row ! 2 = 0"
    using e [rule_format, of 0] e [rule_format, of 1] e [rule_format, of 2] m
    by (simp_all add: results_ex_def sqrt_4)
  from l obtain a b c a' b' c' where "mean_row = [a, b, c]" "std_row = [a', b', c']"
    by (auto simp: numeral_3_eq_3 length_Suc_conv)
  with m s have "mean_row = [2, 2, 3]" "std_row = [2, 0, 0]"
    by simp_all
  with f have "f = \<lparr>path = ''MMBPD/Throughput/Ensemble_result.csv'',
            columns = [Name ''throughput_MAE'', Name ''throughput_RMSE'', Name ''throughput_MAPE''],
            table = [[1, 2, 3], [1, 2, 3], [1, 2, 3], [1, 2, 3], [6, 2, 3], [2, 2, 3], [2, 0, 0]]\<rparr>"
    by (cases f) (simp add: results_ex_def)
  with w h show ?thesis by simp
qed

text \<open>
  C7 as stated (the columns are always named after the task, the path is always
  dataset, task and file name in a row) fails: with the task \<^verbatim>\<open>"Speed"\<close> the columns
  are 0, 1, 2, and with the task \<^verbatim>\<open>"/tmp"\<close> the file is
  \<^verbatim>\<open>/tmp/Ensemble_result.csv\<close>.
\<close>

theorem columns_unnamed_counterexample:
  "write_results ''MMBPD'' ''Speed'' results_ex =
     Inr \<lparr>path = ''MMBPD/Speed/Ensemble_result.csv'',
          columns = [Position 0, Position 1, Position 2],
          table = [[1, 2, 3], [1, 2, 3], [1, 2, 3], [1, 2, 3], [6, 2, 3], [2, 2, 3], [2, 0, 0]]\<rparr>
   \<and> write_results ''MMBPD'' ''/tmp'' results_ex =
     Inr \<lparr>path = ''/tmp/Ensemble_result.csv'',
          columns = [Position 0, Position 1, Position 2],
          table = [[1, 2, 3], [1, 2, 3], [1, 2, 3], [1, 2, 3], [6, 2, 3], [2, 2, 3], [2, 0, 0]]\<rparr>"
  unfolding write_results_def np_mean0_ex np_std0_ex bnd_Inr Let_def
  by (simp add: os_path_join_def join_step_def results_ex_def upt_conv_Cons)

subsection \<open>The forward pass and the metrics\<close>

lemma float_eps_pos: "0 < float_eps"
  by (simp add: float_eps_def)

lemma linear_forward_Inr:
  assumes "ncols x = in_features l"
  shows "\<exists>y. linear_forward l x = Inr y \<and> ncols y = out_features l \<and> nrows y = nrows x"
  using assms by (simp add: linear_forward_def nrows_def)

lemma relu_shape: "ncols (relu x) = ncols x" "nrows (relu x) = nrows x"
  by (simp_all add: relu_def nrows_def)

lemma forward_eval_Inr:
  assumes "ncols x = 2"
  shows "\<exists>y. forward (Backbone init) eval_mode x = Inr y \<and> ncols y = 1 \<and> nrows y = nrows x"
proof -
  let ?b = "Backbone init"
  have d: "dropout p (eval_mode k) z = z" for p k z
    by (simp add: dropout_def eval_mode_def)
  from linear_forward_Inr [of x "fc1 ?b"] assms obtain o1 where
    1: "linear_forward (fc1 ?b) x = Inr o1" "ncols o1 = 128" "nrows o1 = nrows x"
    by (auto simp: Backbone_def Linear_def)
  from linear_forward_Inr [of "relu o1" "fc2 ?b"] 1 obtain o2 where
    2: "linear_forward (fc2 ?b) (relu o1) = Inr o2" "ncols o2 = 64" "nrows o2 = nrows x"
    by (auto simp: Backbone_def Linear_def relu_shape)
  from linear_forward_Inr [of "relu o2" "fc3 ?b"] 2 obtain o3 where
    3: "linear_forward (fc3 ?b) (relu o2) = Inr o3" "ncols o3 = 8" "nrows o3 = nrows x"
    by (auto simp: Backbone_def Linear_def relu_shape)
  from linear_forward_Inr [of "relu o3" "fc4 ?b"] 3 obtain o4 where
    4: "linear_forward (fc4 ?b) (relu o3) = Inr o4" "ncols o4 = 1" "nrows o4 = nrows x"
    by (auto simp: Backbone_def Linear_def relu_shape)
  show ?thesis
    unfolding forward_def d using 1 2 3 4 by simp
qed

lemma row_means_Inr:
  assumes "ncols a \<noteq> 0"
  shows "row_means a = Inr (reshape_col (map (\<lambda>r. sum_list r / real (ncols a)) (rows a)))"
  using assms collect_divide [of "rows a" "\<lambda>r. real (ncols a)" sum_list]
  by (simp add: row_means_def)

lemma collect_map2_pure:
  "collect (map2 (\<lambda>t p. Inr (e t p)) ts ps) = Inr (map2 e ts ps)"
  using collect_pure [of "case_prod e" "zip ts ps"] by (simp add: case_prod_unfold)

lemma column_errors_single:
  assumes "ncols y_true = 1" "ncols y_pred = 1" "nrows y_pred = nrows y_true"
    "nrows y_true \<noteq> 0"
  shows "column_errors (\<lambda>t p. Inr (e t p)) y_true y_pred =
    Inr (sum_list (map2 e (column y_true 0) (column y_pred 0)) / real (nrows y_true))"
proof -
  have ne: "map2 e (column y_true 0) (column y_pred 0) \<noteq> []"
    using assms(3,4) length_column [of y_true 0] length_column [of y_pred 0]
    by (cases "column y_true 0"; cases "column y_pred 0") auto
  have len: "length (map2 e (column y_true 0) (column y_pred 0)) = nrows y_true"
    using assms(3) by (simp add: length_column)
  have chk: "check_reg_targets y_true y_pred = Inr ()"
    using assms by (simp add: check_reg_targets_def)
  show ?thesis
    unfolding column_errors_def chk bnd_Inr assms(1)
    using average_Inr [OF ne] len
    by (simp add: collect_map2_pure average_def divide_checked_def)
qed

lemma mape_guard:
  "divide_checked \<bar>p - t\<bar> (max \<bar>t\<bar> float_eps) = Inr (\<bar>p - t\<bar> / max \<bar>t\<bar> float_eps)"
proof -
  have "0 < max \<bar>t\<bar> float_eps"
    using float_eps_pos by (simp add: less_max_iff_disj)
  then show ?thesis by (simp add: divide_checked_def)
qed

lemma MSELoss_Inr:
  assumes "ncols a = 1" "ncols b = 1" "nrows a = nrows b" "nrows b \<noteq> 0"
  shows "\<exists>loss. MSELoss a b = Inr loss"
proof -
  let ?L = "concat (map (\<lambda>i. map (\<lambda>j. (broadcast_at a i j - broadcast_at b i j)\<^sup>2) [0..<1])
          [0..<nrows b])"
  have ne: "?L \<noteq> []"
    using assms(4) by (cases "nrows b") (simp_all add: upt_conv_Cons)
  have rn: "(if nrows a = 1 then nrows b else nrows a) = nrows b"
    and cn: "(if ncols a = 1 then ncols b else ncols a) = 1"
    and c: "((nrows a = nrows b \<or> nrows a = 1 \<or> nrows b = 1)
         \<and> (ncols a = ncols b \<or> ncols a = 1 \<or> ncols b = 1)) = True"
    using assms by simp_all
  have "MSELoss a b = average ?L"
    by (simp only: MSELoss_def rn cn c if_True)
  with average_Inr [OF ne] show ?thesis by simp
qed

text \<open>
  C9. On every batch with two features, at least one record and one target per record,
  \<^verbatim>\<open>evaluate\<close> in evaluation mode returns its three metrics, whatever the targets are, a
  target of exactly zero included: the percentage error divides by
  \<open>max |y_true| eps\<close>, which is never zero, so a zero target contributes
  \<open>|y_pred| / eps\<close>, and the result is the mean of these quotients.
\<close>

theorem evaluate_defined_at_zero_target:
  assumes "ncols x = 2" "nrows x \<noteq> 0" "nrows y = nrows x" "ncols y = 1"
  shows "\<exists>y_hat0 y_hat logs MAE RMSE MAPE.
      forward (Backbone init) eval_mode x = Inr y_hat0 \<and> row_means y_hat0 = Inr y_hat
    \<and> evaluate (Backbone init) eval_mode (x, y) stage = Inr (logs, (MAE, RMSE, MAPE))
    \<and> mean_absolute_percentage_error y y_hat = Inr MAPE
    \<and> MAPE = (\<Sum>(t, p)\<leftarrow>zip (column y 0) (column y_hat 0). \<bar>p - t\<bar> / max \<bar>t\<bar> float_eps)
               / real (nrows y)
    \<and> divide_checked \<bar>q - 0\<bar> (max \<bar>0\<bar> float_eps) = Inr (\<bar>q\<bar> / float_eps)"
proof -
  from forward_eval_Inr [OF assms(1)] obtain y_hat0 where
    f: "forward (Backbone init) eval_mode x = Inr y_hat0" "ncols y_hat0 = 1"
       "nrows y_hat0 = nrows x"
    by blast
  define y_hat where "y_hat = reshape_col (map (\<lambda>r. sum_list r / real (ncols y_hat0)) (rows y_hat0))"
  have r: "row_means y_hat0 = Inr y_hat"
    using row_means_Inr [of y_hat0] f(2) by (simp add: y_hat_def)
  have s: "ncols y_hat = 1" "nrows y_hat = nrows y"
    using f(3) assms(3) by (simp_all add: y_hat_def reshape_col_def nrows_def)
  have ny: "nrows y \<noteq> 0" using assms by simp
  from MSELoss_Inr [OF s(1) assms(4) s(2) ny] obtain loss where l: "MSELoss y_hat y = Inr loss"
    by blast
  have mae: "mean_absolute_error y y_hat =
      Inr (sum_list (map2 (\<lambda>t p. \<bar>p - t\<bar>) (column y 0) (column y_hat 0)) / real (nrows y))"
    unfolding mean_absolute_error_def by (rule column_errors_single [OF assms(4) s ny])
  have mse: "mean_squared_error y y_hat =
      Inr (sum_list (map2 (\<lambda>t p. (t - p)\<^sup>2) (column y 0) (column y_hat 0)) / real (nrows y))"
    unfolding mean_squared_error_def by (rule column_errors_single [OF assms(4) s ny])
  have mape: "mean_absolute_percentage_error y y_hat =
      Inr (sum_list (map2 (\<lambda>t p. \<bar>p - t\<bar> / max \<bar>t\<bar> float_eps) (column y 0) (column y_hat 0))
           / real (nrows y))"
    unfolding mean_absolute_percentage_error_def mape_guard
    by (rule column_errors_single [OF assms(4) s ny])
  have ev: "\<exists>logs MAE RMSE. evaluate (Backbone init) eval_mode (x, y) stage =
      Inr (logs, (MAE, RMSE,
        sum_list (map2 (\<lambda>t p. \<bar>p - t\<bar> / max \<bar>t\<bar> float_eps) (column y 0) (column y_hat 0))
           / real (nrows y)))"
    unfolding evaluate_def prod.case f(1) r l mae mse mape bnd_Inr Let_def by blast
  have z: "divide_checked \<bar>q - 0\<bar> (max \<bar>0\<bar> float_eps) = Inr (\<bar>q\<bar> / float_eps)"
    using mape_guard [of q 0] float_eps_pos by (simp add: max_def)
  from f(1) r ev mape z show ?thesis by blast
qed

theorem evaluate_defined_at_zero_target_witness:
  "ncols (x_data test_ds_ex) = 2 \<and> nrows (x_data test_ds_ex) \<noteq> 0
   \<and> nrows (y_data test_ds_ex) = nrows (x_data test_ds_ex) \<and> ncols (y_data test_ds_ex) = 1
   \<and> rows (y_data test_ds_ex) ! 0 = [0]
   \<and> (\<exists>logs MAE RMSE MAPE.
         evaluate (Backbone zero_init) eval_mode (x_data test_ds_ex, y_data test_ds_ex) ''test''
           = Inr (logs, (MAE, RMSE, MAPE)))"
proof -
  have h: "ncols (x_data test_ds_ex) = 2" "nrows (x_data test_ds_ex) \<noteq> 0"
    "nrows (y_data test_ds_ex) = nrows (x_data test_ds_ex)" "ncols (y_data test_ds_ex) = 1"
    by (simp_all add: test_ds_ex_def nrows_def)
  from evaluate_defined_at_zero_target [OF h, of zero_init "''test''" 0]
  obtain logs MAE RMSE MAPE where
    "evaluate (Backbone zero_init) eval_mode (x_data test_ds_ex, y_data test_ds_ex) ''test''
       = Inr (logs, (MAE, RMSE, MAPE))"
    by blast
  moreover have "rows (y_data test_ds_ex) ! 0 = [0]"
    by (simp add: test_ds_ex_def)
  ultimately show ?thesis using h by blast
qed

subsection \<open>Folds\<close>

lemma sum_list_fold_sizes:
  assumes "0 < k"
  shows "sum_list (fold_sizes k n) = n"
proof -
  have m: "n mod k < k" using assms by simp
  have "{0..<k} \<inter> {i. i < n mod k} = {0..<n mod k}" using m by auto
  then have "(\<Sum>i = 0..<k. if i < n mod k then 1 else 0) = n mod k"
    by (simp add: sum.If_cases)
  then have "(\<Sum>i = 0..<k. n div k + (if i < n mod k then 1 else 0)) = k * (n div k) + n mod k"
    by (simp add: sum.distrib)
  then show ?thesis
    by (simp add: fold_sizes_def interv_sum_list_conv_sum_set_nat del: upt.simps)
qed

lemma length_fold_sizes: "length (fold_sizes k n) = k"
  by (simp add: fold_sizes_def)

lemma length_slices: "length (slices xs ss) = length ss"
  by (induction ss arbitrary: xs) simp_all

lemma concat_slices: "concat (slices xs ss) = take (sum_list ss) xs"
proof (induction ss arbitrary: xs)
  case Nil
  then show ?case by simp
next
  case (Cons s ss)
  have "take s xs @ take (sum_list ss) (drop s xs) = take (s + sum_list ss) xs"
    by (simp add: take_add)
  with Cons show ?case by simp
qed

lemma distinct_concat_disjoint:
  "distinct (concat xss) \<Longrightarrow> j < length xss \<Longrightarrow> j' < length xss \<Longrightarrow> j \<noteq> j' \<Longrightarrow>
   set (xss ! j) \<inter> set (xss ! j') = {}"
proof (induction xss arbitrary: j j')
  case Nil
  then show ?case by simp
next
  case (Cons xs xss)
  show ?case
  proof (cases j)
    case 0
    with Cons.prems obtain i where "j' = Suc i" "i < length xss" by (cases j') auto
    with 0 Cons.prems(1) show ?thesis by fastforce
  next
    case (Suc i)
    show ?thesis
    proof (cases j')
      case 0
      with Suc Cons.prems show ?thesis by fastforce
    next
      case (Suc i')
      with \<open>j = Suc i\<close> Cons show ?thesis by simp
    qed
  qed
qed

lemma fold_of_sets:
  assumes "set test \<subseteq> {0..<n}"
  shows "set (fst (fold_of n test)) = {0..<n} - set test" "set (snd (fold_of n test)) = set test"
  using assms by (auto simp: fold_of_def)

text \<open>
  C1. With at least five records, and a generator that returns the indices in some
  order (each once), the split yields five folds. In each fold the train indices and
  the test indices are disjoint and together are all indices; every index is a test
  index of exactly one fold. The folds depend on the data only through the number of
  records, and on the fixed seed: any other run over as many records gets the same
  folds.
\<close>

theorem five_folds_partition:
  assumes "distinct (rng seed (nrows X))" "set (rng seed (nrows X)) = {0..<nrows X}"
    "5 \<le> nrows X"
  shows "\<exists>folds. split_folds rng (Some (X, Y1)) = Inr folds \<and> length folds = 5
    \<and> (\<forall>(train_index, test_index)\<in>set folds.
          set train_index \<inter> set test_index = {}
        \<and> set train_index \<union> set test_index = {0..<nrows X})
    \<and> (\<forall>i<nrows X. \<exists>!j. j < 5 \<and> i \<in> set (snd (folds ! j)))
    \<and> (\<forall>X' Y1'. nrows X' = nrows X \<longrightarrow> split_folds rng (Some (X', Y1')) = Inr folds)"
proof -
  let ?n = "nrows X"
  let ?perm = "rng seed ?n"
  let ?tests = "slices ?perm (fold_sizes 5 ?n)"
  let ?folds = "map (fold_of ?n) ?tests"
  have len_perm: "length ?perm = ?n"
    using assms(1,2) distinct_card [of ?perm] by simp
  have lt: "length ?tests = 5" by (simp add: length_slices length_fold_sizes)
  have ct: "concat ?tests = ?perm"
    by (simp add: concat_slices sum_list_fold_sizes len_perm)
  have sub: "set t \<subseteq> {0..<?n}" if "t \<in> set ?tests" for t
  proof -
    from that have "set t \<subseteq> set (concat ?tests)" by auto
    then show ?thesis unfolding ct assms(2) .
  qed
  have split: "split_folds rng (Some (X', Y1')) = Inr ?folds" if "nrows X' = ?n" for X' Y1'
    using assms(3) that
    by (simp add: split_folds_def KFold_split_def KFold_def iter_test_indices_def)
  have part: "\<forall>(train_index, test_index)\<in>set ?folds.
          set train_index \<inter> set test_index = {}
        \<and> set train_index \<union> set test_index = {0..<?n}"
  proof (clarify, intro conjI)
    fix tr te assume "(tr, te) \<in> set ?folds"
    then obtain t where t: "t \<in> set ?tests" "(tr, te) = fold_of ?n t" by auto
    from fold_of_sets [OF sub [OF t(1)]] t(2) [symmetric]
    have s: "set tr = {0..<?n} - set t" "set te = set t" by simp_all
    show "set tr \<inter> set te = {}" using s by auto
    show "set tr \<union> set te = {0..<?n}" using s sub [OF t(1)] by auto
  qed
  have snd_fold: "set (snd (?folds ! j)) = set (?tests ! j)" if "j < 5" for j
    using that lt fold_of_sets(2) [OF sub, of "?tests ! j"] by simp
  have once: "\<forall>i<?n. \<exists>!j. j < 5 \<and> i \<in> set (snd (?folds ! j))"
  proof (intro allI impI)
    fix i assume "i < ?n"
    then have "i \<in> set (concat ?tests)" unfolding ct assms(2) by simp
    then obtain t where "t \<in> set ?tests" "i \<in> set t" by auto
    then obtain j where j: "j < 5" "i \<in> set (?tests ! j)"
      using lt by (metis in_set_conv_nth)
    have d: "distinct (concat ?tests)" unfolding ct by (rule assms(1))
    show "\<exists>!j. j < 5 \<and> i \<in> set (snd (?folds ! j))"
    proof (rule ex1I [of _ j])
      show "j < 5 \<and> i \<in> set (snd (?folds ! j))" using j snd_fold [of j] by blast
    next
      fix j' assume a: "j' < 5 \<and> i \<in> set (snd (?folds ! j'))"
      then have "i \<in> set (?tests ! j')" using snd_fold [of j'] by blast
      with j a distinct_concat_disjoint [OF d, of j j'] lt show "j' = j" by auto
    qed
  qed
  from split [of X Y1] split part once lt show ?thesis by auto
qed

theorem five_folds_partition_witness:
  "distinct (rng_ex seed (nrows X_ex)) \<and> set (rng_ex seed (nrows X_ex)) = {0..<nrows X_ex}
   \<and> 5 \<le> nrows X_ex
   \<and> split_folds rng_ex (Some (X_ex, Y_ex)) =
       Inr [([0, 1, 2, 3], [4]), ([0, 1, 2, 4], [3]), ([0, 1, 3, 4], [2]),
            ([0, 2, 3, 4], [1]), ([1, 2, 3, 4], [0])]
   \<and> (\<exists>folds. split_folds rng_ex (Some (X_ex, Y_ex)) = Inr folds \<and> length folds = 5)"
proof -
  have h: "distinct (rng_ex seed (nrows X_ex))"
    "set (rng_ex seed (nrows X_ex)) = {0..<nrows X_ex}"
    by (simp_all add: rng_ex_def)
  have h3: "5 \<le> nrows X_ex"
    by (simp add: X_ex_def nrows_def)
  have e: "split_folds rng_ex (Some (X_ex, Y_ex)) =
       Inr [([0, 1, 2, 3], [4]), ([0, 1, 2, 4], [3]), ([0, 1, 3, 4], [2]),
            ([0, 2, 3, 4], [1]), ([1, 2, 3, 4], [0])]"
    by (simp add: split_folds_def KFold_split_def KFold_def iter_test_indices_def
        fold_sizes_def fold_of_def rng_ex_def X_ex_def nrows_def upt_conv_Cons)
  from five_folds_partition [of rng_ex X_ex Y_ex, OF h h3] h h3 e show ?thesis by blast
qed

subsection \<open>The training loop\<close>

lemma improves_at_iff: "improves_at mae k \<longleftrightarrow> (\<forall>j. 1 \<le> j \<and> j < k \<longrightarrow> mae k < mae j)"
  by (auto simp: improves_at_def list_all_iff)

lemma stalled_at_iff:
  "stalled_at mae s \<longleftrightarrow> 10 \<le> s \<and> (\<forall>k. s - 9 \<le> k \<and> k \<le> s \<longrightarrow> \<not> improves_at mae k)"
  by (auto simp: stalled_at_def list_all_iff)

text \<open>
  The loop invariant, with \<open>c\<close> the number of checks made so far and \<open>w\<close> the
  callback's count: \<open>w\<close> is below 10; before the first check there is no best value;
  after it, check \<open>c - w\<close> improved and none after it did, and its MAE is the best value
  and no larger than any MAE seen. From a state like this the loop ends at the first
  check at which the sequence has stalled, or, if there is none in the epochs left, when
  they are used up.
\<close>

lemma fit_epochs_exact:
  assumes logs: "\<forall>k. map_of (val_logs k) (monitor es) = Some (mae k)"
    and par: "mode es = ''min''" "min_delta es = 0" "patience es = 10"
    and w: "wait_count es < 10"
    and first: "epoch div 10 = 0 \<longrightarrow> best_score es = None"
    and later: "1 \<le> epoch div 10 \<longrightarrow>
        wait_count es < epoch div 10
      \<and> best_score es = Some (mae (epoch div 10 - wait_count es))
      \<and> improves_at mae (epoch div 10 - wait_count es)
      \<and> (\<forall>k. epoch div 10 - wait_count es < k \<and> k \<le> epoch div 10 \<longrightarrow> \<not> improves_at mae k)
      \<and> (\<forall>j. 1 \<le> j \<and> j \<le> epoch div 10 \<longrightarrow> mae (epoch div 10 - wait_count es) \<le> mae j)"
  shows "\<exists>e es'. fit_epochs r 10 epoch es val_logs = Inr (e, es')
     \<and> ((\<exists>s. epoch div 10 < s \<and> e = 10 * s \<and> e \<le> epoch + r \<and> stalled_at mae s
              \<and> (\<forall>s'. epoch div 10 < s' \<and> s' < s \<longrightarrow> \<not> stalled_at mae s')
              \<and> wait_count es' = 10)
         \<or> (e = epoch + r
              \<and> (\<forall>s'. epoch div 10 < s' \<and> 10 * s' \<le> epoch + r \<longrightarrow> \<not> stalled_at mae s')
              \<and> wait_count es' < 10))"
  using assms
proof (induction r arbitrary: epoch es)
  case 0
  have "\<not> (epoch div 10 < s' \<and> 10 * s' \<le> epoch + 0)" for s' :: nat
    by presburger
  then have "\<forall>s'. epoch div 10 < s' \<and> 10 * s' \<le> epoch + 0 \<longrightarrow> \<not> stalled_at mae s'"
    by blast
  with 0(5) show ?case by simp
next
  case (Suc r)
  note logs = Suc.prems(1) and par = Suc.prems(2-4) and w = Suc.prems(5)
    and first = Suc.prems(6) and later = Suc.prems(7)
  define c where "c = epoch div 10"
  show ?case
  proof (cases "(epoch + 1) mod 10 = 0")
    case False
    then have d: "(epoch + 1) div 10 = epoch div 10"
      by (metis Suc_eq_plus1 div_Suc)
    from Suc.IH [of es "epoch + 1", OF logs par w] first later d
    have "\<exists>e es'. fit_epochs r 10 (epoch + 1) es val_logs = Inr (e, es')
     \<and> ((\<exists>s. epoch div 10 < s \<and> e = 10 * s \<and> e \<le> epoch + 1 + r \<and> stalled_at mae s
              \<and> (\<forall>s'. epoch div 10 < s' \<and> s' < s \<longrightarrow> \<not> stalled_at mae s')
              \<and> wait_count es' = 10)
         \<or> (e = epoch + 1 + r
              \<and> (\<forall>s'. epoch div 10 < s' \<and> 10 * s' \<le> epoch + 1 + r \<longrightarrow> \<not> stalled_at mae s')
              \<and> wait_count es' < 10))"
      by simp
    with False show ?thesis by simp
  next
    case True
    define k where "k = (epoch + 1) div 10"
    have k: "k = c + 1" "epoch + 1 = 10 * k"
      using True unfolding k_def c_def by (metis Suc_eq_plus1 div_Suc, presburger)
    have ove: "on_validation_end es (val_logs k) = Inr (evaluate_stopping_criteria es (mae k))"
      using logs by (simp add: on_validation_end_def)
    have imp_iff: "monitor_op es (mae k - min_delta es) (best_score es) \<longleftrightarrow> improves_at mae k"
    proof (cases "c = 0")
      case True
      with first k have "best_score es = None" "k = 1" by (simp_all add: c_def)
      then show ?thesis by (simp add: monitor_op_def improves_at_iff)
    next
      case False
      with later have l: "wait_count es < c" "best_score es = Some (mae (c - wait_count es))"
        "\<forall>j. 1 \<le> j \<and> j \<le> c \<longrightarrow> mae (c - wait_count es) \<le> mae j"
        by (simp_all add: c_def)
      show ?thesis
      proof
        assume "monitor_op es (mae k - min_delta es) (best_score es)"
        with l(2) par have "mae k < mae (c - wait_count es)" by (simp add: monitor_op_def)
        with l(3) k(1) show "improves_at mae k"
          unfolding improves_at_iff by (metis Suc_eq_plus1 less_Suc_eq_le order_less_le_trans)
      next
        assume "improves_at mae k"
        moreover have "1 \<le> c - wait_count es" "c - wait_count es < k" using l(1) k(1) by simp_all
        ultimately have "mae k < mae (c - wait_count es)" unfolding improves_at_iff by blast
        with l(2) par show "monitor_op es (mae k - min_delta es) (best_score es)"
          by (simp add: monitor_op_def)
      qed
    qed
    show ?thesis
    proof (cases "improves_at mae k")
      case imp: True
      define es1 where "es1 = es\<lparr>best_score := Some (mae k), wait_count := 0\<rparr>"
      have esc: "evaluate_stopping_criteria es (mae k) = (es1, False)"
        using imp imp_iff by (simp add: evaluate_stopping_criteria_def es1_def)
      have p1: "\<forall>k. map_of (val_logs k) (monitor es1) = Some (mae k)"
        "mode es1 = ''min''" "min_delta es1 = 0" "patience es1 = 10" "wait_count es1 < 10"
        using logs par by (simp_all add: es1_def)
      have f1: "(epoch + 1) div 10 = 0 \<longrightarrow> best_score es1 = None"
        using k k_def by simp
      have le: "\<forall>j. 1 \<le> j \<and> j \<le> k \<longrightarrow> mae k \<le> mae j"
        using imp unfolding improves_at_iff by (metis le_neq_implies_less less_eq_real_def order_refl)
      have l1: "1 \<le> (epoch + 1) div 10 \<longrightarrow>
          wait_count es1 < (epoch + 1) div 10
        \<and> best_score es1 = Some (mae ((epoch + 1) div 10 - wait_count es1))
        \<and> improves_at mae ((epoch + 1) div 10 - wait_count es1)
        \<and> (\<forall>j. (epoch + 1) div 10 - wait_count es1 < j \<and> j \<le> (epoch + 1) div 10
              \<longrightarrow> \<not> improves_at mae j)
        \<and> (\<forall>j. 1 \<le> j \<and> j \<le> (epoch + 1) div 10
              \<longrightarrow> mae ((epoch + 1) div 10 - wait_count es1) \<le> mae j)"
        using imp le k by (auto simp: es1_def k_def [symmetric])
      have ns: "\<not> stalled_at mae k"
      proof
        assume "stalled_at mae k"
        then have "\<forall>j. k - 9 \<le> j \<and> j \<le> k \<longrightarrow> \<not> improves_at mae j"
          unfolding stalled_at_iff by blast
        moreover have "k - 9 \<le> k" by simp
        ultimately show False using imp by blast
      qed
      from Suc.IH [of es1 "epoch + 1", OF p1 f1 l1]
      obtain e es' where r: "fit_epochs r 10 (epoch + 1) es1 val_logs = Inr (e, es')"
        and dj: "(\<exists>s. k < s \<and> e = 10 * s \<and> e \<le> epoch + 1 + r \<and> stalled_at mae s
              \<and> (\<forall>s'. k < s' \<and> s' < s \<longrightarrow> \<not> stalled_at mae s')
              \<and> wait_count es' = 10)
         \<or> (e = epoch + 1 + r
              \<and> (\<forall>s'. k < s' \<and> 10 * s' \<le> epoch + 1 + r \<longrightarrow> \<not> stalled_at mae s')
              \<and> wait_count es' < 10)"
        unfolding k_def by blast
      have res: "fit_epochs (Suc r) 10 epoch es val_logs = Inr (e, es')"
        using True ove esc r by (simp add: k_def)
      from dj have "(\<exists>s. c < s \<and> e = 10 * s \<and> e \<le> epoch + Suc r \<and> stalled_at mae s
              \<and> (\<forall>s'. c < s' \<and> s' < s \<longrightarrow> \<not> stalled_at mae s')
              \<and> wait_count es' = 10)
         \<or> (e = epoch + Suc r
              \<and> (\<forall>s'. c < s' \<and> 10 * s' \<le> epoch + Suc r \<longrightarrow> \<not> stalled_at mae s')
              \<and> wait_count es' < 10)"
      proof
        assume "\<exists>s. k < s \<and> e = 10 * s \<and> e \<le> epoch + 1 + r \<and> stalled_at mae s
              \<and> (\<forall>s'. k < s' \<and> s' < s \<longrightarrow> \<not> stalled_at mae s') \<and> wait_count es' = 10"
        then obtain s where s: "k < s" "e = 10 * s" "e \<le> epoch + 1 + r" "stalled_at mae s"
          "\<forall>s'. k < s' \<and> s' < s \<longrightarrow> \<not> stalled_at mae s'" "wait_count es' = 10"
          by blast
        have "\<forall>s'. c < s' \<and> s' < s \<longrightarrow> \<not> stalled_at mae s'"
        proof (intro allI impI)
          fix s' assume "c < s' \<and> s' < s"
          then have "s' = k \<or> (k < s' \<and> s' < s)" using k(1) by auto
          with ns s(5) show "\<not> stalled_at mae s'" by blast
        qed
        with s k(1) show ?thesis by (intro disjI1 exI [of _ s]) simp
      next
        assume a: "e = epoch + 1 + r
              \<and> (\<forall>s'. k < s' \<and> 10 * s' \<le> epoch + 1 + r \<longrightarrow> \<not> stalled_at mae s')
              \<and> wait_count es' < 10"
        have "\<forall>s'. c < s' \<and> 10 * s' \<le> epoch + Suc r \<longrightarrow> \<not> stalled_at mae s'"
        proof (intro allI impI)
          fix s' assume "c < s' \<and> 10 * s' \<le> epoch + Suc r"
          then have "s' = k \<or> (k < s' \<and> 10 * s' \<le> epoch + 1 + r)" using k(1) by auto
          with ns a show "\<not> stalled_at mae s'" by blast
        qed
        with a show ?thesis by simp
      qed
      with res show ?thesis unfolding c_def by blast
    next
      case nimp: False
      define es1 where "es1 = es\<lparr>wait_count := wait_count es + 1\<rparr>"
      have esc: "evaluate_stopping_criteria es (mae k) = (es1, wait_count es + 1 \<ge> 10)"
        using nimp imp_iff par by (simp add: evaluate_stopping_criteria_def es1_def)
      have c1: "1 \<le> c"
      proof (rule ccontr)
        assume "\<not> 1 \<le> c"
        then have "k = 1" using k(1) by simp
        then have "improves_at mae k" by (simp add: improves_at_iff)
        with nimp show False by simp
      qed
      with later have l: "wait_count es < c" "best_score es = Some (mae (c - wait_count es))"
        "improves_at mae (c - wait_count es)"
        "\<forall>j. c - wait_count es < j \<and> j \<le> c \<longrightarrow> \<not> improves_at mae j"
        "\<forall>j. 1 \<le> j \<and> j \<le> c \<longrightarrow> mae (c - wait_count es) \<le> mae j"
        by (simp_all add: c_def)
      have bk: "mae (c - wait_count es) \<le> mae k"
        using nimp imp_iff l(2) par by (simp add: monitor_op_def)
      have run: "\<forall>j. c - wait_count es < j \<and> j \<le> k \<longrightarrow> \<not> improves_at mae j"
        using l(4) nimp k(1) by (metis Suc_eq_plus1 le_SucE)
      show ?thesis
      proof (cases "wait_count es + 1 \<ge> 10")
        case stop: True
        with w have w9: "wait_count es = 9" by simp
        have wf: "wait_count es1 = 10" using w9 by (simp add: es1_def)
        have res: "fit_epochs (Suc r) 10 epoch es val_logs = Inr (10 * k, es1)"
          using True ove esc stop k(2) by (simp add: k_def)
        have st: "stalled_at mae k"
          unfolding stalled_at_iff using run l(1) w9 k(1) by auto
        have "c < k \<and> 10 * k = 10 * k \<and> 10 * k \<le> epoch + Suc r \<and> stalled_at mae k
              \<and> (\<forall>s'. c < s' \<and> s' < k \<longrightarrow> \<not> stalled_at mae s') \<and> wait_count es1 = 10"
          using st wf k by auto
        with res show ?thesis unfolding c_def by blast
      next
        case cont: False
        have p1: "\<forall>k. map_of (val_logs k) (monitor es1) = Some (mae k)"
          "mode es1 = ''min''" "min_delta es1 = 0" "patience es1 = 10" "wait_count es1 < 10"
          using logs par cont by (simp_all add: es1_def)
        have f1: "(epoch + 1) div 10 = 0 \<longrightarrow> best_score es1 = None"
          using k k_def by simp
        have kw: "k - wait_count es1 = c - wait_count es"
          using k(1) l(1) by (simp add: es1_def)
        have l1: "1 \<le> (epoch + 1) div 10 \<longrightarrow>
            wait_count es1 < (epoch + 1) div 10
          \<and> best_score es1 = Some (mae ((epoch + 1) div 10 - wait_count es1))
          \<and> improves_at mae ((epoch + 1) div 10 - wait_count es1)
          \<and> (\<forall>j. (epoch + 1) div 10 - wait_count es1 < j \<and> j \<le> (epoch + 1) div 10
                \<longrightarrow> \<not> improves_at mae j)
          \<and> (\<forall>j. 1 \<le> j \<and> j \<le> (epoch + 1) div 10
                \<longrightarrow> mae ((epoch + 1) div 10 - wait_count es1) \<le> mae j)"
          unfolding k_def [symmetric] kw
          using l run bk k(1) by (auto simp: es1_def le_Suc_eq)
        have ns: "\<not> stalled_at mae k"
        proof
          assume "stalled_at mae k"
          then have "\<forall>j. k - 9 \<le> j \<and> j \<le> k \<longrightarrow> \<not> improves_at mae j"
            unfolding stalled_at_iff by blast
          moreover have "k - 9 \<le> c - wait_count es" "c - wait_count es \<le> k"
            using cont k(1) l(1) by simp_all
          ultimately show False using l(3) by blast
        qed
        from Suc.IH [of es1 "epoch + 1", OF p1 f1 l1]
        obtain e es' where r: "fit_epochs r 10 (epoch + 1) es1 val_logs = Inr (e, es')"
          and dj: "(\<exists>s. k < s \<and> e = 10 * s \<and> e \<le> epoch + 1 + r \<and> stalled_at mae s
                \<and> (\<forall>s'. k < s' \<and> s' < s \<longrightarrow> \<not> stalled_at mae s')
                \<and> wait_count es' = 10)
           \<or> (e = epoch + 1 + r
                \<and> (\<forall>s'. k < s' \<and> 10 * s' \<le> epoch + 1 + r \<longrightarrow> \<not> stalled_at mae s')
                \<and> wait_count es' < 10)"
          unfolding k_def by blast
        have res: "fit_epochs (Suc r) 10 epoch es val_logs = Inr (e, es')"
          using True ove esc cont r by (simp add: k_def)
        from dj have "(\<exists>s. c < s \<and> e = 10 * s \<and> e \<le> epoch + Suc r \<and> stalled_at mae s
                \<and> (\<forall>s'. c < s' \<and> s' < s \<longrightarrow> \<not> stalled_at mae s')
                \<and> wait_count es' = 10)
           \<or> (e = epoch + Suc r
                \<and> (\<forall>s'. c < s' \<and> 10 * s' \<le> epoch + Suc r \<longrightarrow> \<not> stalled_at mae s')
                \<and> wait_count es' < 10)"
        proof
          assume "\<exists>s. k < s \<and> e = 10 * s \<and> e \<le> epoch + 1 + r \<and> stalled_at mae s
                \<and> (\<forall>s'. k < s' \<and> s' < s \<longrightarrow> \<not> stalled_at mae s') \<and> wait_count es' = 10"
          then obtain s where s: "k < s" "e = 10 * s" "e \<le> epoch + 1 + r" "stalled_at mae s"
            "\<forall>s'. k < s' \<and> s' < s \<longrightarrow> \<not> stalled_at mae s'" "wait_count es' = 10"
            by blast
          have "\<forall>s'. c < s' \<and> s' < s \<longrightarrow> \<not> stalled_at mae s'"
          proof (intro allI impI)
            fix s' assume "c < s' \<and> s' < s"
            then have "s' = k \<or> (k < s' \<and> s' < s)" using k(1) by auto
            with ns s(5) show "\<not> stalled_at mae s'" by blast
          qed
          with s k(1) show ?thesis by (intro disjI1 exI [of _ s]) simp
        next
          assume a: "e = epoch + 1 + r
                \<and> (\<forall>s'. k < s' \<and> 10 * s' \<le> epoch + 1 + r \<longrightarrow> \<not> stalled_at mae s')
                \<and> wait_count es' < 10"
          have "\<forall>s'. c < s' \<and> 10 * s' \<le> epoch + Suc r \<longrightarrow> \<not> stalled_at mae s'"
          proof (intro allI impI)
            fix s' assume "c < s' \<and> 10 * s' \<le> epoch + Suc r"
            then have "s' = k \<or> (k < s' \<and> 10 * s' \<le> epoch + 1 + r)" using k(1) by auto
            with ns a show "\<not> stalled_at mae s'" by blast
          qed
          with a show ?thesis by simp
        qed
        with res show ?thesis unfolding c_def by blast
      qed
    qed
  qed
qed

lemma trainer_fit_ex: "trainer_fit val_logs_ex = Inr (110, es_final_ex)"
  by code_simp

lemma trainer_fit_down_ex: "trainer_fit val_logs_down_ex = Inr (500, es_down_final_ex)"
  by code_simp

lemma stalled_ex: "stalled_at mae_ex 11" "list_all (\<lambda>s. \<not> stalled_at mae_ex s) [0..<11]"
  by code_simp+

text \<open>
  C6. The trainer validates after every tenth epoch, for at most 500 epochs, and the
  callback watches the logged \<^verbatim>\<open>val_MAE\<close> in minimisation mode with a zero
  \<open>min_delta\<close> and a patience of 10. Training ends exactly at the first check at which
  the MAE sequence has stalled (ten checks in a row, none below every earlier MAE), ten
  epochs per check; if the sequence has not stalled at any of the 50 checks, all 500
  epochs are run. So it ends before epoch 500 only right after a check, with the count
  at 10; and if none of the ten checks after check \<open>N\<close> is below every value of the
  checks \<open>1, \<dots>, N\<close>, it ends after at most \<open>N + 10\<close> checks.
\<close>

theorem early_stopping_halts_within_patience:
  assumes "\<forall>k. map_of (val_logs k) ''val_MAE'' = Some (mae k)"
  shows "\<exists>epochs es. trainer_fit val_logs = Inr (epochs, es)
     \<and> ((\<exists>s. s \<le> 50 \<and> stalled_at mae s \<and> (\<forall>s'<s. \<not> stalled_at mae s')
              \<and> epochs = 10 * s \<and> wait_count es = 10)
         \<or> ((\<forall>s\<le>50. \<not> stalled_at mae s) \<and> epochs = 500 \<and> wait_count es < 10))
     \<and> epochs \<le> 500
     \<and> (epochs < 500 \<longrightarrow> wait_count es = 10 \<and> epochs mod 10 = 0)
     \<and> (\<forall>N. (\<forall>k. N < k \<and> k \<le> N + 10 \<longrightarrow> (\<exists>j. 1 \<le> j \<and> j \<le> N \<and> mae j \<le> mae k))
            \<longrightarrow> epochs div 10 \<le> N + 10)"
proof -
  define es0 where "es0 = \<lparr>monitor = ''val_MAE'', min_delta = - 0, patience = 10,
      mode = ''min'', wait_count = 0, best_score = None\<rparr>"
  have c: "EarlyStopping ''val_MAE'' 0 10 ''min'' = Inr es0"
    by (simp add: EarlyStopping_def es0_def)
  have "\<exists>e es'. fit_epochs 500 10 0 es0 val_logs = Inr (e, es')
     \<and> ((\<exists>s. 0 div 10 < s \<and> e = 10 * s \<and> e \<le> 0 + 500 \<and> stalled_at mae s
              \<and> (\<forall>s'. 0 div 10 < s' \<and> s' < s \<longrightarrow> \<not> stalled_at mae s')
              \<and> wait_count es' = 10)
         \<or> (e = 0 + 500
              \<and> (\<forall>s'. 0 div 10 < s' \<and> 10 * s' \<le> 0 + 500 \<longrightarrow> \<not> stalled_at mae s')
              \<and> wait_count es' < 10))"
    by (rule fit_epochs_exact [where mae = mae]) (use assms in \<open>simp_all add: es0_def\<close>)
  then obtain e es' where r: "fit_epochs 500 10 0 es0 val_logs = Inr (e, es')"
    and dj: "(\<exists>s. 0 < s \<and> e = 10 * s \<and> e \<le> 500 \<and> stalled_at mae s
              \<and> (\<forall>s'. 0 < s' \<and> s' < s \<longrightarrow> \<not> stalled_at mae s') \<and> wait_count es' = 10)
         \<or> (e = 500 \<and> (\<forall>s'. 0 < s' \<and> 10 * s' \<le> 500 \<longrightarrow> \<not> stalled_at mae s')
              \<and> wait_count es' < 10)"
    by auto
  have z: "\<not> stalled_at mae 0" by (simp add: stalled_at_iff)
  have tf: "trainer_fit val_logs = Inr (e, es')"
    using r c by (simp add: trainer_fit_def)
  have main: "(\<exists>s. s \<le> 50 \<and> stalled_at mae s \<and> (\<forall>s'<s. \<not> stalled_at mae s')
              \<and> e = 10 * s \<and> wait_count es' = 10)
         \<or> ((\<forall>s\<le>50. \<not> stalled_at mae s) \<and> e = 500 \<and> wait_count es' < 10)"
    using dj
  proof
    assume "\<exists>s. 0 < s \<and> e = 10 * s \<and> e \<le> 500 \<and> stalled_at mae s
              \<and> (\<forall>s'. 0 < s' \<and> s' < s \<longrightarrow> \<not> stalled_at mae s') \<and> wait_count es' = 10"
    then obtain s where s: "0 < s" "e = 10 * s" "e \<le> 500" "stalled_at mae s"
      "\<forall>s'. 0 < s' \<and> s' < s \<longrightarrow> \<not> stalled_at mae s'" "wait_count es' = 10"
      by blast
    have "\<forall>s'<s. \<not> stalled_at mae s'"
    proof (intro allI impI)
      fix s' assume "s' < s"
      then show "\<not> stalled_at mae s'" using z s(5) by (cases "s' = 0") auto
    qed
    moreover have "s \<le> 50" using s(2,3) by simp
    ultimately show ?thesis using s by blast
  next
    assume a: "e = 500 \<and> (\<forall>s'. 0 < s' \<and> 10 * s' \<le> 500 \<longrightarrow> \<not> stalled_at mae s')
              \<and> wait_count es' < 10"
    have "\<forall>s\<le>50. \<not> stalled_at mae s"
    proof (intro allI impI)
      fix s :: nat assume "s \<le> 50"
      then show "\<not> stalled_at mae s" using z a by (cases "s = 0") auto
    qed
    with a show ?thesis by blast
  qed
  have le: "e \<le> 500" using main by auto
  have early: "e < 500 \<longrightarrow> wait_count es' = 10 \<and> e mod 10 = 0" using main by auto
  have bound: "\<forall>N. (\<forall>k. N < k \<and> k \<le> N + 10 \<longrightarrow> (\<exists>j. 1 \<le> j \<and> j \<le> N \<and> mae j \<le> mae k))
            \<longrightarrow> e div 10 \<le> N + 10"
  proof (intro allI impI)
    fix N assume h: "\<forall>k. N < k \<and> k \<le> N + 10 \<longrightarrow> (\<exists>j. 1 \<le> j \<and> j \<le> N \<and> mae j \<le> mae k)"
    have ni: "\<not> improves_at mae k" if "N < k \<and> k \<le> N + 10" for k
    proof
      assume i: "improves_at mae k"
      from h that obtain j where j: "1 \<le> j" "j \<le> N" "mae j \<le> mae k" by blast
      with that have "1 \<le> j \<and> j < k" by simp
      with i have "mae k < mae j" unfolding improves_at_iff by blast
      with j(3) show False by simp
    qed
    have st: "stalled_at mae (N + 10)"
      unfolding stalled_at_iff using ni by auto
    from main show "e div 10 \<le> N + 10"
    proof
      assume "\<exists>s. s \<le> 50 \<and> stalled_at mae s \<and> (\<forall>s'<s. \<not> stalled_at mae s')
              \<and> e = 10 * s \<and> wait_count es' = 10"
      then obtain s where s: "\<forall>s'<s. \<not> stalled_at mae s'" "e = 10 * s" by blast
      from s(1) st have "s \<le> N + 10" by (meson not_le)
      with s(2) show ?thesis by simp
    next
      assume a: "(\<forall>s\<le>50. \<not> stalled_at mae s) \<and> e = 500 \<and> wait_count es' < 10"
      with st have "50 < N + 10" by (meson not_le)
      with a show ?thesis by simp
    qed
  qed
  show ?thesis
  proof (intro exI conjI)
    show "trainer_fit val_logs = Inr (e, es')" by (rule tf)
    show "(\<exists>s. s \<le> 50 \<and> stalled_at mae s \<and> (\<forall>s'<s. \<not> stalled_at mae s')
              \<and> e = 10 * s \<and> wait_count es' = 10)
         \<or> ((\<forall>s\<le>50. \<not> stalled_at mae s) \<and> e = 500 \<and> wait_count es' < 10)"
      by (rule main)
    show "e \<le> 500" by (rule le)
    show "e < 500 \<longrightarrow> wait_count es' = 10 \<and> e mod 10 = 0" by (rule early)
    show "\<forall>N. (\<forall>k. N < k \<and> k \<le> N + 10 \<longrightarrow> (\<exists>j. 1 \<le> j \<and> j \<le> N \<and> mae j \<le> mae k))
            \<longrightarrow> e div 10 \<le> N + 10"
      by (rule bound)
  qed
qed

theorem early_stopping_halts_within_patience_witness:
  "trainer_fit val_logs_ex = Inr (110, es_final_ex)
   \<and> stalled_at mae_ex 11 \<and> list_all (\<lambda>s. \<not> stalled_at mae_ex s) [0..<11]
   \<and> trainer_fit val_logs_down_ex = Inr (500, es_down_final_ex)
   \<and> (\<exists>epochs es. trainer_fit val_logs_ex = Inr (epochs, es) \<and> epochs div 10 \<le> 1 + 10)"
proof -
  have h1: "\<forall>k. map_of (val_logs_ex k) ''val_MAE'' = Some (mae_ex k)"
    by (simp add: val_logs_ex_def)
  have h2: "\<forall>k. 1 < k \<and> k \<le> 1 + 10 \<longrightarrow> (\<exists>j. 1 \<le> j \<and> j \<le> 1 \<and> mae_ex j \<le> mae_ex k)"
    by (auto simp: mae_ex_def)
  from early_stopping_halts_within_patience [OF h1] obtain epochs es where
    e: "trainer_fit val_logs_ex = Inr (epochs, es)"
    and b: "\<forall>N. (\<forall>k. N < k \<and> k \<le> N + 10 \<longrightarrow> (\<exists>j. 1 \<le> j \<and> j \<le> N \<and> mae_ex j \<le> mae_ex k))
            \<longrightarrow> epochs div 10 \<le> N + 10"
    by blast
  from b h2 have "epochs div 10 \<le> 1 + 10" by blast
  with e trainer_fit_ex trainer_fit_down_ex stalled_ex show ?thesis by blast
qed

end
